theory Spec2Isabelle
  imports Complex_Main "HOL-Library.AList"
begin

section \<open>BehaviorGuard main process: data model\<close>

text \<open>
  A shallow embedding of \<^verbatim>\<open>src/main.js\<close>. The module-level globals
  \<^verbatim>\<open>RAW\<close>, \<^verbatim>\<open>SESSION\<close>, \<^verbatim>\<open>SETTINGS\<close>, \<^verbatim>\<open>ALERTS\<close>, \<^verbatim>\<open>isMonitoring\<close> and the
  persistent store are the fields of one record \<open>app\<close> that every operation takes and
  returns. Every call of \<^verbatim>\<open>Date.now()\<close>, \<^verbatim>\<open>new Date()\<close> and \<^verbatim>\<open>crypto.randomBytes\<close>
  is a parameter of the operation that makes it. Timestamps, key codes and pointer
  coordinates are integers; the statistics that feature extraction derives from them are
  JavaScript numbers, modelled as real numbers (rounding and overflow of IEEE doubles
  are not modelled). Fields whose source name is
  a single letter or is shared by several object shapes carry a prefix.
  Calls into the collaborators that do not touch this state (\<^verbatim>\<open>sendToRenderer\<close>,
  \<^verbatim>\<open>notify\<close>, \<^verbatim>\<open>updateTray\<close>) are left out.
\<close>

type_synonym nonce_t = string

text \<open>The object pushed by \<^verbatim>\<open>onKeyUp\<close>: \<^verbatim>\<open>{ kc, dwell, flight, ts, nonce }\<close>.\<close>

record key_event =
  k_kc :: int
  k_dwell :: int
  k_flight :: "int option"
  k_ts :: int
  k_nonce :: nonce_t

text \<open>The object pushed by \<^verbatim>\<open>onMouseMove\<close>: \<^verbatim>\<open>{ x, y, t, nonce }\<close> with optional \<^verbatim>\<open>v\<close>, \<^verbatim>\<open>acc\<close>.\<close>

record mouse_evt =
  m_x :: int
  m_y :: int
  m_t :: int
  m_v :: "real option"
  m_acc :: "real option"
  m_nonce :: nonce_t

record click_evt =
  c_x :: int
  c_y :: int
  c_t :: int
  c_btn :: int
  c_nonce :: nonce_t

record scroll_evt =
  s_amount :: int
  s_t :: int

record jitter =
  j_t :: int
  j_acc :: real
  j_v :: real

text \<open>
  The key of a digraph or trigraph entry is the template string
  \<^verbatim>\<open>`${a}_${b}`\<close> of \<^verbatim>\<open>_hashPair\<close>; it is represented by the list of the key codes
  it joins. A \<^verbatim>\<open>Map\<close> keeps insertion order, so the two maps are association lists.
\<close>

type_synonym keypath = "int list"

type_synonym timing_map = "(keypath \<times> int list) list"

record raw =
  keydowns :: "int \<rightharpoonup> int"
  ksEvents :: "key_event list"
  mouseEvts :: "mouse_evt list"
  clicks :: "click_evt list"
  scrolls :: "scroll_evt list"
  digraphs :: timing_map
  trigraphs :: timing_map
  jitterBuf :: "jitter list"
  lastRelease :: "int option"
  nonce :: nonce_t
  salt :: "string option"

text \<open>
  A number as the trust scorer's arithmetic sees it. The baseline it reads is whatever
  document is the active profile, and \<^verbatim>\<open>-\<close>, \<^verbatim>\<open>/\<close>, \<^verbatim>\<open>>\<close>, \<^verbatim>\<open>Math.abs\<close> and
  \<^verbatim>\<open>Math.min\<close> coerce their operands to numbers; a baseline metric is represented by
  the number it is coerced to. A property that is missing or not numeric is \<^verbatim>\<open>NaN\<close>,
  and a JSON number beyond the range of a double, such as \<^verbatim>\<open>1e999\<close>, is parsed as
  \<^verbatim>\<open>Infinity\<close>. The operations below follow IEEE 754 on \<^verbatim>\<open>NaN\<close> and the infinities;
  finite numbers are reals, and the sign of a zero is not modelled.
\<close>

datatype jsnum = Num real | PInf | NInf | NaN

fun jneg :: "jsnum \<Rightarrow> jsnum" where
  "jneg (Num x) = Num (- x)"
| "jneg PInf = NInf"
| "jneg NInf = PInf"
| "jneg NaN = NaN"

fun jadd :: "jsnum \<Rightarrow> jsnum \<Rightarrow> jsnum" where
  "jadd (Num x) (Num y) = Num (x + y)"
| "jadd NaN _ = NaN"
| "jadd _ NaN = NaN"
| "jadd PInf NInf = NaN"
| "jadd NInf PInf = NaN"
| "jadd PInf _ = PInf"
| "jadd _ PInf = PInf"
| "jadd NInf _ = NInf"
| "jadd _ NInf = NInf"

abbreviation jsub :: "jsnum \<Rightarrow> jsnum \<Rightarrow> jsnum" where
  "jsub a b \<equiv> jadd a (jneg b)"

text \<open>The sign of a number that is not \<^verbatim>\<open>NaN\<close>.\<close>

fun jsgn :: "jsnum \<Rightarrow> real" where
  "jsgn (Num x) = sgn x"
| "jsgn PInf = 1"
| "jsgn NInf = - 1"
| "jsgn NaN = 0"

text \<open>Multiplication: an infinity times 0 is \<^verbatim>\<open>NaN\<close>.\<close>

fun jmul :: "jsnum \<Rightarrow> jsnum \<Rightarrow> jsnum" where
  "jmul (Num x) (Num y) = Num (x * y)"
| "jmul NaN _ = NaN"
| "jmul _ NaN = NaN"
| "jmul a b = (if jsgn a * jsgn b = 0 then NaN else if jsgn a * jsgn b > 0 then PInf else NInf)"

text \<open>
  Division: \<^verbatim>\<open>0/0\<close> and an infinity over an infinity are \<^verbatim>\<open>NaN\<close>, a finite number
  over an infinity is 0. A zero divisor is taken as \<^verbatim>\<open>+0\<close>; no division of the modelled
  code has one (each divisor is guarded by \<^verbatim>\<open>bv>0\<close>, by \<^verbatim>\<open>n?\<close> or by a non-empty
  \<^verbatim>\<open>parts\<close>, or is a positive literal).
\<close>

fun jdiv :: "jsnum \<Rightarrow> jsnum \<Rightarrow> jsnum" where
  "jdiv (Num x) (Num y) =
     (if y \<noteq> 0 then Num (x / y) else if x = 0 then NaN else if x > 0 then PInf else NInf)"
| "jdiv NaN _ = NaN"
| "jdiv _ NaN = NaN"
| "jdiv (Num x) _ = Num 0"
| "jdiv a (Num y) = (if (jsgn a > 0) = (y \<ge> 0) then PInf else NInf)"
| "jdiv _ _ = NaN"

text \<open>\<^verbatim>\<open>Math.min\<close> and \<^verbatim>\<open>Math.max\<close> of two arguments, and \<^verbatim>\<open>Math.abs\<close>.\<close>

fun jmin :: "jsnum \<Rightarrow> jsnum \<Rightarrow> jsnum" where
  "jmin (Num x) (Num y) = Num (min x y)"
| "jmin NaN _ = NaN"
| "jmin _ NaN = NaN"
| "jmin NInf _ = NInf"
| "jmin _ NInf = NInf"
| "jmin PInf b = b"
| "jmin a PInf = a"

fun jmax :: "jsnum \<Rightarrow> jsnum \<Rightarrow> jsnum" where
  "jmax (Num x) (Num y) = Num (max x y)"
| "jmax NaN _ = NaN"
| "jmax _ NaN = NaN"
| "jmax PInf _ = PInf"
| "jmax _ PInf = PInf"
| "jmax NInf b = b"
| "jmax a NInf = a"

fun jabs :: "jsnum \<Rightarrow> jsnum" where
  "jabs (Num x) = Num \<bar>x\<bar>"
| "jabs PInf = PInf"
| "jabs NInf = PInf"
| "jabs NaN = NaN"

text \<open>\<^verbatim>\<open>a > r\<close>: false when \<open>a\<close> is \<^verbatim>\<open>NaN\<close>.\<close>

fun jgt :: "jsnum \<Rightarrow> real \<Rightarrow> bool" where
  "jgt (Num x) r = (x > r)"
| "jgt PInf r = True"
| "jgt NInf r = False"
| "jgt NaN r = False"

datatype phase = Quick | Intermediate | Complete

text \<open>
  \<^verbatim>\<open>SESSION\<close>. The type of the profile is a parameter: training builds a
  \<open>behavior_profile\<close> (below), the import handler stores whatever document
  \<^verbatim>\<open>JSON.parse\<close> returned.
\<close>

record 'p session =
  start :: int
  activeTime :: int
  lastActive :: "int option"
  lastTick :: int
  isTraining :: bool
  phase :: phase
  trainStart :: "int option"
  profile :: "'p option"
  trustScore :: "jsnum option"
  consecutive :: nat
  lastCalc :: int

datatype sensitivity = Low | Medium | High

record settings =
  enabled :: bool
  sensitivity :: sensitivity
  privacyMode :: bool
  notifications :: bool
  autoBlock :: bool
  autoStart :: bool
  launchAtLogin :: bool

datatype alert_type = Bot | Replay | Anomaly

datatype severity = SevHigh | SevCritical

record alert =
  a_type :: alert_type
  a_severity :: severity
  a_ts :: int

text \<open>The documents of the key-value store that the modelled operations write.\<close>

record training_snapshot =
  tr_ksEvents :: "key_event list"
  tr_activeTime :: int
  tr_phase :: phase
  tr_digs :: timing_map
  tr_saved :: int

record 'p store =
  st_profile :: "'p option"
  st_training :: "training_snapshot option"
  st_alerts :: "alert list"

record 'p app =
  RAW :: raw
  SESSION :: "'p session"
  SETTINGS :: settings
  ALERTS :: "alert list"
  isMonitoring :: bool
  store :: "'p store"

text \<open>JavaScript truthiness of a value that is a number or \<^verbatim>\<open>null\<close>.\<close>

definition truthy :: "int option \<Rightarrow> bool" where
  "truthy v = (case v of None \<Rightarrow> False | Some n \<Rightarrow> n \<noteq> 0)"

section \<open>Process cold start\<close>

text \<open>
  The initial values of \<^verbatim>\<open>RAW\<close> (lines 26-30) and \<^verbatim>\<open>SESSION\<close> (lines 33-37); \<open>nc\<close>
  is the value drawn by \<^verbatim>\<open>_nonce()\<close> and \<open>now\<close> the clock at load time.
\<close>

definition RAW_init :: "nonce_t \<Rightarrow> raw" where
  "RAW_init nc =
     \<lparr>keydowns = Map.empty, ksEvents = [], mouseEvts = [], clicks = [], scrolls = [],
      digraphs = [], trigraphs = [], jitterBuf = [],
      lastRelease = None, nonce = nc, salt = None\<rparr>"

definition SESSION_init :: "int \<Rightarrow> 'p session" where
  "SESSION_init now =
     \<lparr>start = now, activeTime = 0, lastActive = None, lastTick = now,
      isTraining = True, phase = Quick, trainStart = None,
      profile = None, trustScore = None, consecutive = 0, lastCalc = 0\<rparr>"

text \<open>A fresh installation: empty store, default settings, monitoring not yet started.\<close>

definition default_settings :: settings where
  "default_settings =
     \<lparr>enabled = True, sensitivity = Medium, privacyMode = True, notifications = True,
      autoBlock = False, autoStart = True, launchAtLogin = False\<rparr>"

definition app_init :: "nonce_t \<Rightarrow> int \<Rightarrow> 'p app" where
  "app_init nc now =
     \<lparr>RAW = RAW_init nc, SESSION = SESSION_init now, SETTINGS = default_settings,
      ALERTS = [], isMonitoring = False,
      store = \<lparr>st_profile = None, st_training = None, st_alerts = []\<rparr>\<rparr>"

section \<open>Activity tracking and the keyboard handlers\<close>

text \<open>
  A handler reads the clock twice: \<open>now\<close> is the reading inside \<^verbatim>\<open>markActivity\<close>, \<open>t\<close>
  the handler's own \<^verbatim>\<open>const t = Date.now()\<close>; \<open>kc\<close> is \<^verbatim>\<open>event.keycode\<close>.
\<close>

definition markActivity :: "int \<Rightarrow> 'p session \<Rightarrow> 'p session" where
  "markActivity now S =
     (if isTraining S then
        (let S1 = (if \<not> truthy (trainStart S) then S\<lparr>trainStart := Some now\<rparr> else S);
             S2 = (case lastActive S1 of
                     None \<Rightarrow> S1
                   | Some la \<Rightarrow>
                       if la \<noteq> 0 \<and> now - la < 10000
                       then S1\<lparr>activeTime := activeTime S1 + (now - la)\<rparr> else S1)
         in S2\<lparr>lastActive := Some now\<rparr>)
      else S)"

definition onKeyDown :: "int \<Rightarrow> int \<Rightarrow> int \<Rightarrow> 'p app \<Rightarrow> 'p app" where
  "onKeyDown now t kc A =
     (if \<not> isMonitoring A \<or> \<not> enabled (SETTINGS A) then A
      else
        (let A1 = A\<lparr>SESSION := markActivity now (SESSION A)\<rparr> in
         if keydowns (RAW A1) kc = None
         then A1\<lparr>RAW := (RAW A1)\<lparr>keydowns := (keydowns (RAW A1))(kc \<mapsto> t)\<rparr>\<rparr>
         else A1))"

text \<open>
  Lines 116-118 and 123-125: create the entry when the key is new, push the interval,
  drop the oldest one when the list is longer than 30.
\<close>

definition pushInterval :: "keypath \<Rightarrow> int \<Rightarrow> timing_map \<Rightarrow> timing_map" where
  "pushInterval h d m =
     (let m1 = (if map_of m h = None then AList.update h [] m else m);
          arr = (case map_of m1 h of None \<Rightarrow> [] | Some a \<Rightarrow> a) @ [d];
          arr1 = (if length arr > 30 then tl arr else arr)
      in AList.update h arr1 m1)"

definition hashPair :: "keypath \<Rightarrow> keypath \<Rightarrow> keypath" where
  "hashPair a b = a @ b"

text \<open>Lines 105-126 of \<^verbatim>\<open>onKeyUp\<close>: the pending press \<open>dn\<close> of \<open>kc\<close> was found.\<close>

definition resolveKeyUp :: "int \<Rightarrow> int \<Rightarrow> int \<Rightarrow> raw \<Rightarrow> raw" where
  "resolveKeyUp t kc dn R =
     (let R1 = R\<lparr>keydowns := (keydowns R)(kc := None)\<rparr>;
          dwell = t - dn;
          flight = (case lastRelease R1 of
                      None \<Rightarrow> None
                    | Some lr \<Rightarrow> if lr \<noteq> 0 then Some (dn - lr) else None);
          R2 = R1\<lparr>lastRelease := Some t\<rparr>
      in if dwell < 1 \<or> dwell > 1000 then R2
         else
           (let ev = \<lparr>k_kc = kc, k_dwell = dwell, k_flight = flight, k_ts = dn,
                      k_nonce = nonce R2\<rparr>;
                ks1 = ksEvents R2 @ [ev];
                ks = (if length ks1 > 3000 then tl ks1 else ks1);
                R3 = R2\<lparr>ksEvents := ks\<rparr>;
                R4 = (if length ks \<ge> 2 then
                        (let prev = ks ! (length ks - 2)
                         in R3\<lparr>digraphs :=
                                 pushInterval (hashPair [k_kc prev] [kc]) (dn - k_ts prev)
                                   (digraphs R3)\<rparr>)
                      else R3)
            in if length ks \<ge> 3 then
                 (let a = ks ! (length ks - 3); b = ks ! (length ks - 2)
                  in R4\<lparr>trigraphs :=
                          pushInterval (hashPair (hashPair [k_kc a] [k_kc b]) [kc])
                            (dn - k_ts a) (trigraphs R4)\<rparr>)
               else R4))"

definition onKeyUp :: "int \<Rightarrow> int \<Rightarrow> int \<Rightarrow> 'p app \<Rightarrow> 'p app" where
  "onKeyUp now t kc A =
     (if \<not> isMonitoring A \<or> \<not> enabled (SETTINGS A) then A
      else
        (let A1 = A\<lparr>SESSION := markActivity now (SESSION A)\<rparr> in
         case keydowns (RAW A1) kc of
           None \<Rightarrow> A1
         | Some dn \<Rightarrow> A1\<lparr>RAW := resolveKeyUp t kc dn (RAW A1)\<rparr>))"

section \<open>Statistics utilities\<close>

text \<open>
  \<^verbatim>\<open>_mean\<close>, \<^verbatim>\<open>_std\<close>, \<^verbatim>\<open>_med\<close>, \<^verbatim>\<open>_mad\<close>, \<^verbatim>\<open>_pct\<close>, \<^verbatim>\<open>_iqr\<close> (lines 54-59), named
  without the leading underscore. \<^verbatim>\<open>reduce((s,x)=>s+x,0)\<close> is \<open>sum_list\<close>, and the
  numeric \<^verbatim>\<open>sort((x,y)=>x-y)\<close> of a copy is \<open>sort\<close>.
\<close>

definition mean :: "real list \<Rightarrow> real" where
  "mean a = (if a = [] then 0 else sum_list a / real (length a))"

definition std :: "real list \<Rightarrow> real" where
  "std a = (let m = mean a in if a = [] then 0 else sqrt (mean (map (\<lambda>x. (x - m)\<^sup>2) a)))"

definition med :: "real list \<Rightarrow> real" where
  "med a =
     (if a = [] then 0
      else (let s = sort a; m = length s div 2
            in if length s mod 2 \<noteq> 0 then s ! m else (s ! (m - 1) + s ! m) / 2))"

definition mad :: "real list \<Rightarrow> real" where
  "mad a = (let m = med a in med (map (\<lambda>x. \<bar>x - m\<bar>) a) * 1.4826)"

text \<open>
  \<^verbatim>\<open>_pct\<close>: \<^verbatim>\<open>i%1\<close> is the fractional part (the index is never negative), and
  \<^verbatim>\<open>s[Math.ceil(i)]||s[lo]\<close> falls back to \<^verbatim>\<open>s[lo]\<close> when the upper order statistic
  is 0. The callers pass 25 and 75 only, so both indices are in range.
\<close>

definition pct :: "real list \<Rightarrow> real \<Rightarrow> real" where
  "pct a p =
     (if a = [] then 0
      else (let s = sort a;
                i = (p / 100) * real (length s - 1);
                lo = nat \<lfloor>i\<rfloor>;
                hi = nat \<lceil>i\<rceil>;
                up = (if s ! hi \<noteq> 0 then s ! hi else s ! lo)
            in s ! lo * (1 - frac i) + up * frac i))"

definition iqr :: "real list \<Rightarrow> real" where
  "iqr a = pct a 75 - pct a 25"

section \<open>Feature extraction\<close>

text \<open>
  The three feature objects. The type of their metrics is a parameter: the objects that
  extraction builds hold real numbers (\<open>ks_features\<close>, \<open>mouse_features\<close>,
  \<open>click_features\<close>), the ones read from the active profile as a baseline hold \<open>jsnum\<close>.
\<close>

record 'n ks_feats =
  medDwell :: 'n
  madDwell :: 'n
  p25Dwell :: 'n
  p75Dwell :: 'n
  iqrDwell :: 'n
  avgDwell :: 'n
  stdDwell :: 'n
  medFlight :: 'n
  madFlight :: 'n
  medIv :: 'n
  madIv :: 'n
  iqrIv :: 'n
  wpm :: 'n
  digVar :: 'n
  ks_n :: nat

record 'n mouse_feats =
  avgVel :: 'n
  stdVel :: 'n
  curvature :: 'n
  entropy :: 'n
  jitterFreq :: 'n
  jitterAmp :: 'n
  mouse_n :: nat

record 'n click_feats =
  avgIv :: 'n
  stdIv :: 'n
  avgDist :: 'n
  cpm :: 'n
  click_n :: nat

type_synonym ks_features = "real ks_feats"

type_synonym mouse_features = "real mouse_feats"

type_synonym click_features = "real click_feats"

text \<open>The filter of line 168: \<^verbatim>\<open>k.dwell && k.dwell < 1000\<close>.\<close>

definition qualifying :: "key_event \<Rightarrow> bool" where
  "qualifying k = (k_dwell k \<noteq> 0 \<and> k_dwell k < 1000)"

text \<open>The filter of line 171: \<^verbatim>\<open>k.flight && k.flight>0 && k.flight<2000\<close>.\<close>

definition validFlight :: "key_event \<Rightarrow> bool" where
  "validFlight k = (truthy (k_flight k) \<and> the (k_flight k) > 0 \<and> the (k_flight k) < 2000)"

text \<open>The loop of line 173 over successive press times.\<close>

fun pressIntervals :: "key_event list \<Rightarrow> real list" where
  "pressIntervals (a # b # rest) =
     (let d = k_ts b - k_ts a
      in (if d > 0 \<and> d < 2000 then [real_of_int d] else []) @ pressIntervals (b # rest))"
| "pressIntervals _ = []"

text \<open>The loop of line 175 over the digraph map.\<close>

definition digraphStds :: "timing_map \<Rightarrow> real list" where
  "digraphStds m = map (\<lambda>(h, t). std (map real_of_int t)) (filter (\<lambda>(h, t). length t \<ge> 3) m)"

definition wordsPerMinute :: "key_event list \<Rightarrow> real" where
  "wordsPerMinute v =
     (if length v < 10 then 0
      else (let dur = real_of_int (k_ts (last v) - k_ts (hd v)) / 60000
            in if dur > 0 then (real (length v) / 5) / dur else 0))"

definition extractKS :: "raw \<Rightarrow> ks_features option" where
  "extractKS R =
     (let v = filter qualifying (ksEvents R)
      in if length v < 50 then None
         else
           (let dw = map (\<lambda>k. real_of_int (k_dwell k)) v;
                fl = map (\<lambda>k. real_of_int (the (k_flight k))) (filter validFlight v);
                iv = pressIntervals v;
                digVars = digraphStds (digraphs R)
            in Some
              \<lparr>medDwell = med dw, madDwell = mad dw, p25Dwell = pct dw 25, p75Dwell = pct dw 75,
               iqrDwell = iqr dw, avgDwell = mean dw, stdDwell = std dw,
               medFlight = (if fl \<noteq> [] then med fl else 0),
               madFlight = (if fl \<noteq> [] then mad fl else 0),
               medIv = (if iv \<noteq> [] then med iv else 0),
               madIv = (if iv \<noteq> [] then mad iv else 0),
               iqrIv = (if iv \<noteq> [] then iqr iv else 0),
               wpm = wordsPerMinute v,
               digVar = (if digVars \<noteq> [] then med digVars else 0),
               ks_n = length v\<rparr>))"

text \<open>
  \<^verbatim>\<open>Math.atan2\<close> on integer differences (no negative zero arises from subtracting
  integers).
\<close>

definition atan2 :: "real \<Rightarrow> real \<Rightarrow> real" where
  "atan2 y x =
     (if x > 0 then arctan (y / x)
      else if x < 0 then (if y \<ge> 0 then arctan (y / x) + pi else arctan (y / x) - pi)
      else if y > 0 then pi / 2
      else if y < 0 then - pi / 2
      else 0)"

text \<open>
  The loop of lines 190-197: \<open>pp\<close> is \<^verbatim>\<open>m[i-2]\<close> (absent at \<^verbatim>\<open>i = 1\<close>), \<open>a\<close> is
  \<^verbatim>\<open>m[i-1]\<close>; the result is \<^verbatim>\<open>(vels, angles)\<close>.
\<close>

fun mouseScan :: "mouse_evt option \<Rightarrow> mouse_evt \<Rightarrow> mouse_evt list \<Rightarrow> real list \<times> real list" where
  "mouseScan pp a [] = ([], [])"
| "mouseScan pp a (b # rest) =
     (let (vels, angles) = mouseScan (Some a) b rest;
          dt = real_of_int (m_t b - m_t a) / 1000
      in if dt > 0 \<and> dt < 0.5 then
           (let dx = real_of_int (m_x b - m_x a); dy = real_of_int (m_y b - m_y a)
            in (sqrt (dx * dx + dy * dy) / dt # vels,
                (case pp of
                   None \<Rightarrow> angles
                 | Some p \<Rightarrow>
                     \<bar>atan2 dy dx - atan2 (real_of_int (m_y a - m_y p)) (real_of_int (m_x a - m_x p))\<bar>
                       # angles)))
         else (vels, angles))"

text \<open>Lines 198-204: ten bins of width \<open>pi/10\<close>, Shannon entropy, scaled by 3.32.\<close>

definition angleEntropy :: "real list \<Rightarrow> real" where
  "angleEntropy angles =
     (if length angles < 10 then 0
      else (let bs = pi / 10;
                bins = map (\<lambda>k. length (filter (\<lambda>x. min 9 \<lfloor>x / bs\<rfloor> = int k) angles)) [0..<10];
                e = foldl (\<lambda>e c. if c > 0
                                   then (let p = real c / real (length angles) in e - p * log 2 p)
                                   else e) 0 bins
            in min 1 (\<bar>e\<bar> / 3.32)))"

text \<open>The zero-crossing count of line 210.\<close>

fun zeroCrossings :: "real \<Rightarrow> real list \<Rightarrow> nat" where
  "zeroCrossings m2 (a # b # rest) =
     (if (b - m2) * (a - m2) < 0 then 1 else 0) + zeroCrossings m2 (b # rest)"
| "zeroCrossings m2 _ = 0"

text \<open>
  Lines 205-214, giving \<^verbatim>\<open>(jFreq, jAmp)\<close>. Every jitter sample is pushed with a number
  as \<^verbatim>\<open>acc\<close>, so the filter \<^verbatim>\<open>x!==undefined\<close> keeps all of them.
\<close>

definition jitterStats :: "jitter list \<Rightarrow> real \<times> real" where
  "jitterStats jb =
     (if length jb \<ge> 20 then
        (let acc = map j_acc jb
         in if length acc \<ge> 10 then
              (let m2 = mean acc;
                   zc = zeroCrossings m2 acc;
                   dur = real_of_int (j_t (last jb) - j_t (hd jb)) / 1000
               in (if dur > 0 then (real zc / 2) / dur else 0, std acc))
            else (0, 0))
      else (0, 0))"

definition extractMouse :: "raw \<Rightarrow> mouse_features option" where
  "extractMouse R =
     (let m = mouseEvts R
      in if length m < 30 then None
         else
           (let (vels, angles) = mouseScan None (hd m) (tl m);
                (jFreq, jAmp) = jitterStats (jitterBuf R)
            in Some
              \<lparr>avgVel = mean vels, stdVel = std vels,
               curvature = (if angles \<noteq> [] then mean angles / pi else 0),
               entropy = angleEntropy angles,
               jitterFreq = jFreq, jitterAmp = jAmp, mouse_n = length m\<rparr>))"

text \<open>The loop of lines 222-226, giving \<^verbatim>\<open>(ivs, dists)\<close>.\<close>

fun clickScan :: "click_evt list \<Rightarrow> real list \<times> real list" where
  "clickScan (a # b # rest) =
     (let (ivs, dists) = clickScan (b # rest);
          dx = real_of_int (c_x b - c_x a); dy = real_of_int (c_y b - c_y a)
      in (real_of_int (c_t b - c_t a) # ivs, sqrt (dx * dx + dy * dy) # dists))"
| "clickScan _ = ([], [])"

definition extractClick :: "raw \<Rightarrow> click_features option" where
  "extractClick R =
     (let c = clicks R
      in if length c < 5 then None
         else
           (let (ivs, dists) = clickScan c;
                dur = real_of_int (c_t (last c) - c_t (hd c)) / 60000
            in Some
              \<lparr>avgIv = mean ivs, stdIv = std ivs, avgDist = mean dists,
               cpm = (if dur > 0 then real (length c) / dur else 0), click_n = length c\<rparr>))"

section \<open>The behaviour profile and the trust scorer\<close>

record 'n feature_vec =
  fv_ks :: "'n ks_feats option"
  fv_mouse :: "'n mouse_feats option"
  fv_click :: "'n click_feats option"

type_synonym feature_vector = "real feature_vec"

record profile_size =
  sz_keystrokes :: nat
  sz_mouse :: nat
  sz_clicks :: nat
  sz_digraphs :: nat

text \<open>
  The active profile as \<^verbatim>\<open>calcTrustScore\<close> reads it. \<^verbatim>\<open>features\<close> is optional because
  the function tests it, and so is each channel. A metric of a channel is a \<open>jsnum\<close>:
  the profile may be the document that the import handler stored unchecked, in which a
  metric can be missing, not numeric or beyond the range of a double. The fields outside
  \<^verbatim>\<open>features\<close> are not read by the scorer.
\<close>

record behavior_profile =
  uid :: string
  createdAt :: int
  features :: "jsnum feature_vec option"
  p_digraphs :: timing_map
  p_trigraphs :: timing_map
  p_size :: profile_size
  p_v :: string

text \<open>
  The extracted feature objects as they stand in a profile built by training: the same
  numbers.
\<close>

definition ksNum :: "ks_features \<Rightarrow> jsnum ks_feats" where
  "ksNum f =
     \<lparr>medDwell = Num (medDwell f), madDwell = Num (madDwell f), p25Dwell = Num (p25Dwell f),
      p75Dwell = Num (p75Dwell f), iqrDwell = Num (iqrDwell f), avgDwell = Num (avgDwell f),
      stdDwell = Num (stdDwell f), medFlight = Num (medFlight f),
      madFlight = Num (madFlight f), medIv = Num (medIv f), madIv = Num (madIv f),
      iqrIv = Num (iqrIv f), wpm = Num (wpm f), digVar = Num (digVar f), ks_n = ks_n f\<rparr>"

definition mouseNum :: "mouse_features \<Rightarrow> jsnum mouse_feats" where
  "mouseNum f =
     \<lparr>avgVel = Num (avgVel f), stdVel = Num (stdVel f), curvature = Num (curvature f),
      entropy = Num (entropy f), jitterFreq = Num (jitterFreq f),
      jitterAmp = Num (jitterAmp f), mouse_n = mouse_n f\<rparr>"

definition clickNum :: "click_features \<Rightarrow> jsnum click_feats" where
  "clickNum f =
     \<lparr>avgIv = Num (avgIv f), stdIv = Num (stdIv f), avgDist = Num (avgDist f),
      cpm = Num (cpm f), click_n = click_n f\<rparr>"

definition numFeatures :: "feature_vector \<Rightarrow> jsnum feature_vec" where
  "numFeatures v =
     \<lparr>fv_ks = map_option ksNum (fv_ks v), fv_mouse = map_option mouseNum (fv_mouse v),
      fv_click = map_option clickNum (fv_click v)\<rparr>"

text \<open>An element \<^verbatim>\<open>{r, w}\<close> of \<^verbatim>\<open>parts\<close>.\<close>

record part =
  p_r :: jsnum
  p_w :: real

text \<open>
  The closure \<^verbatim>\<open>cmp\<close> of line 280 updates the accumulators \<^verbatim>\<open>d\<close> and \<^verbatim>\<open>n\<close>; here it
  takes and returns the pair. \<open>cv\<close> is a metric of the current vector, \<open>bv\<close> of the
  baseline.
\<close>

definition cmp :: "jsnum \<times> nat \<Rightarrow> real \<Rightarrow> jsnum \<Rightarrow> real \<Rightarrow> jsnum \<times> nat" where
  "cmp acc cv bv tol =
     (case acc of (d, n) \<Rightarrow>
        if jgt bv 0
        then (jadd d (jmul (jmin (Num 1) (jdiv (jdiv (jabs (jsub (Num cv) bv)) bv) (Num tol)))
                       (Num 100)),
              n + 1)
        else (d, n))"

text \<open>Lines 278-285.\<close>

definition ksPart :: "ks_features \<Rightarrow> jsnum ks_feats \<Rightarrow> part" where
  "ksPart c b =
     (let a0 = (Num 0, 0);
          a1 = cmp a0 (medDwell c) (medDwell b) 0.6;
          a2 = cmp a1 (madDwell c) (madDwell b) 0.7;
          a3 = cmp a2 (medFlight c) (medFlight b) 0.7;
          a4 = cmp a3 (medIv c) (medIv b) 0.65;
          a5 = cmp a4 (wpm c) (wpm b) 0.6
      in case a5 of (d, n) \<Rightarrow>
           \<lparr>p_r = (if n \<noteq> 0 then jdiv d (Num (real n)) else Num 0), p_w = 0.5\<rparr>)"

text \<open>Lines 286-292.\<close>

definition mousePart :: "mouse_features \<Rightarrow> jsnum mouse_feats \<Rightarrow> part" where
  "mousePart c b =
     (let (d, n) = (Num 0, 0 :: nat);
          (d, n) = (if jgt (avgVel b) 0
                    then (jadd d (jmul (jmin (Num 1)
                                    (jdiv (jabs (jsub (Num (avgVel c)) (avgVel b))) (avgVel b)))
                                  (Num 100)),
                          n + 1)
                    else (d, n));
          (d, n) = (jadd d (jmul (jmin (Num 1) (jabs (jsub (Num (curvature c)) (curvature b))))
                              (Num 100)),
                    n + 1);
          (d, n) = (jadd d (jmul (jmin (Num 1) (jabs (jsub (Num (entropy c)) (entropy b))))
                              (Num 100)),
                    n + 1)
      in \<lparr>p_r = (if n \<noteq> 0 then jdiv d (Num (real n)) else Num 0), p_w = 0.3\<rparr>)"

text \<open>Lines 293-298.\<close>

definition clickPart :: "click_features \<Rightarrow> jsnum click_feats \<Rightarrow> part" where
  "clickPart c b =
     (let a0 = (Num 0, 0);
          a1 = (if jgt (cpm b) 0
                then (jadd (fst a0)
                        (jmul (jmin (Num 1)
                                 (jdiv (jdiv (jabs (jsub (Num (cpm c)) (cpm b))) (cpm b)) (Num 1.2)))
                              (Num 100)),
                      snd a0 + 1)
                else a0);
          a2 = (if jgt (avgDist b) 0
                then (jadd (fst a1)
                        (jmul (jmin (Num 1)
                                 (jdiv (jdiv (jabs (jsub (Num (avgDist c)) (avgDist b))) (avgDist b))
                                       (Num 1.2)))
                              (Num 100)),
                      snd a1 + 1)
                else a1)
      in case a2 of (d, n) \<Rightarrow>
           \<lparr>p_r = (if n \<noteq> 0 then jdiv d (Num (real n)) else Num 0), p_w = 0.2\<rparr>)"

text \<open>The list \<^verbatim>\<open>parts\<close> after line 298.\<close>

definition scoreParts :: "feature_vector \<Rightarrow> jsnum feature_vec \<Rightarrow> part list" where
  "scoreParts cur base =
     (case (fv_ks cur, fv_ks base) of (Some c, Some b) \<Rightarrow> [ksPart c b] | _ \<Rightarrow> []) @
     (case (fv_mouse cur, fv_mouse base) of (Some c, Some b) \<Rightarrow> [mousePart c b] | _ \<Rightarrow> []) @
     (case (fv_click cur, fv_click base) of (Some c, Some b) \<Rightarrow> [clickPart c b] | _ \<Rightarrow> [])"

text \<open>Lines 300-301: the locals \<^verbatim>\<open>tw\<close> and \<^verbatim>\<open>risk\<close>, each a \<^verbatim>\<open>reduce\<close> from 0.\<close>

definition riskOf :: "part list \<Rightarrow> jsnum" where
  "riskOf parts =
     (let tw = foldl (\<lambda>s x. s + p_w x) 0 parts
      in jdiv (foldl (\<lambda>s x. jadd s (jmul (p_r x) (Num (p_w x)))) (Num 0) parts) (Num tw))"

text \<open>Lines 302-304: the local \<^verbatim>\<open>adj\<close>, from the hour and the day of the week.\<close>

definition timeAdj :: "int \<Rightarrow> int \<Rightarrow> real" where
  "timeAdj h day =
     (let adj = 1;
          adj = (if h < 5 \<or> h \<ge> 22 then adj * 0.85 else adj);
          adj = (if day = 0 \<or> day = 6 then adj * 0.90 else adj);
          adj = (if h \<ge> 5 \<and> h < 12 then adj * 0.92 else adj)
      in adj)"

text \<open>The feature vector \<^verbatim>\<open>cur\<close> of line 275.\<close>

definition currentFeatures :: "raw \<Rightarrow> feature_vector" where
  "currentFeatures R =
     \<lparr>fv_ks = extractKS R, fv_mouse = extractMouse R, fv_click = extractClick R\<rparr>"

text \<open>
  \<^verbatim>\<open>calcTrustScore\<close>; \<open>None\<close> is \<^verbatim>\<open>null\<close>, \<open>Some NaN\<close> the number \<^verbatim>\<open>NaN\<close>, which
  \<^verbatim>\<open>Math.min\<close> and \<^verbatim>\<open>Math.max\<close> return when an argument is \<^verbatim>\<open>NaN\<close>.
\<close>

definition calcTrustScore :: "int \<Rightarrow> int \<Rightarrow> behavior_profile app \<Rightarrow> jsnum option" where
  "calcTrustScore h day A =
     (case profile (SESSION A) of
        None \<Rightarrow> None
      | Some p \<Rightarrow>
          (case features p of
             None \<Rightarrow> None
           | Some base \<Rightarrow>
               (let cur = currentFeatures (RAW A)
                in if fv_ks cur = None \<and> fv_mouse cur = None then trustScore (SESSION A)
                   else
                     (let parts = scoreParts cur base
                      in if parts = [] then trustScore (SESSION A)
                         else Some (jmax (Num 0) (jmin (Num 100)
                                (jsub (Num 100) (jmul (riskOf parts) (Num (timeAdj h day))))))))))"

section \<open>Bot detection\<close>

text \<open>
  A reason pushed by \<^verbatim>\<open>detectBot\<close>. The two reasons that embed a formatted number keep
  the number; the rendering by \<^verbatim>\<open>toFixed\<close> and the join into one string are not
  modelled, so \<^verbatim>\<open>reason\<close> is the list of reasons in push order.
\<close>

datatype bot_reason =
  MouseEntropyLow | JitterHz real | PerfectPaths | SuperhumanSpeed | TooConsistent real
  | DigraphVarianceLow | NoMicroCorrections

record bot_result =
  isBot :: bool
  confidence :: int
  reason :: "bot_reason list"

text \<open>\<^verbatim>\<open>score+=pts; reasons.push(why)\<close>.\<close>

definition award :: "int \<Rightarrow> bot_reason \<Rightarrow> int \<times> bot_reason list \<Rightarrow> int \<times> bot_reason list" where
  "award pts why acc = (case acc of (score, reasons) \<Rightarrow> (score + pts, reasons @ [why]))"

text \<open>\<^verbatim>\<open>slice(-n)\<close>.\<close>

definition lastN :: "nat \<Rightarrow> 'a list \<Rightarrow> 'a list" where
  "lastN n xs = drop (length xs - n) xs"

text \<open>The loop of lines 250-254, giving \<^verbatim>\<open>changes\<close>.\<close>

fun directionChanges :: "mouse_evt list \<Rightarrow> nat" where
  "directionChanges (p # q # r # rest) =
     (let a1 = atan2 (real_of_int (m_y q - m_y p)) (real_of_int (m_x q - m_x p));
          a2 = atan2 (real_of_int (m_y r - m_y q)) (real_of_int (m_x r - m_x q))
      in (if \<bar>a1 - a2\<bar> > 0.1 \<and> \<bar>a1 - a2\<bar> < pi - 0.1 then 1 else 0)
         + directionChanges (q # r # rest))"
| "directionChanges _ = 0"

text \<open>Lines 235-256: the locals \<^verbatim>\<open>score\<close> and \<^verbatim>\<open>reasons\<close> when the last rule is done.\<close>

definition botScore ::
  "ks_features option \<Rightarrow> mouse_features option \<Rightarrow> raw \<Rightarrow> int \<times> bot_reason list" where
  "botScore ks mouse R =
     (let acc = (0, []);
          acc = (case mouse of
                   None \<Rightarrow> acc
                 | Some m \<Rightarrow>
                     (let acc = (if entropy m < 0.02 then award 40 MouseEntropyLow acc else acc);
                          human = (jitterFreq m \<ge> 3 \<and> jitterFreq m \<le> 12);
                          acc = (if \<not> human \<and> jitterFreq m > 0
                                 then award 30 (JitterHz (jitterFreq m)) acc else acc)
                      in if curvature m < 0.01 then award 25 PerfectPaths acc else acc));
          acc = (case ks of
                   None \<Rightarrow> acc
                 | Some k \<Rightarrow>
                     (let acc = (if medIv k < 30 then award 50 SuperhumanSpeed acc else acc);
                          cv = (if medIv k > 0 then iqrIv k / medIv k else 0);
                          acc = (if cv < 0.15 \<and> ks_n k > 30
                                 then award 25 (TooConsistent cv) acc else acc)
                      in if digVar k < 3 \<and> length (digraphs R) > 10
                         then award 20 DigraphVarianceLow acc else acc))
      in if length (mouseEvts R) \<ge> 20 then
           (let r = lastN 50 (mouseEvts R);
                changes = directionChanges r
            in if real changes / real (length r - 2) < 0.15
               then award 30 NoMicroCorrections acc else acc)
         else acc)"

definition detectBot :: "ks_features option \<Rightarrow> mouse_features option \<Rightarrow> raw \<Rightarrow> bot_result" where
  "detectBot ks mouse R =
     (case botScore ks mouse R of (score, reasons) \<Rightarrow>
        \<lparr>isBot = (score \<ge> 85), confidence = min 100 score, reason = reasons\<rparr>)"

section \<open>Training, reset and import\<close>

definition QUICK_TARGET :: int where
  "QUICK_TARGET = 30 * 60 * 1000"

definition FULL_TARGET :: int where
  "FULL_TARGET = 120 * 60 * 1000"

text \<open>
  \<^verbatim>\<open>completeTraining\<close>; \<open>rnd\<close> is the hex string of \<^verbatim>\<open>crypto.randomBytes(6)\<close> and
  \<open>now\<close> the clock. \<^verbatim>\<open>Object.fromEntries\<close> of a map is the map itself here.
\<close>

definition completeTraining :: "string \<Rightarrow> int \<Rightarrow> behavior_profile app \<Rightarrow> behavior_profile app" where
  "completeTraining rnd now A =
     (let ks = extractKS (RAW A); mouse = extractMouse (RAW A); click = extractClick (RAW A)
      in if ks = None \<and> mouse = None then A
         else
           (let p = \<lparr>uid = ''user_'' @ rnd, createdAt = now,
                     features = Some (numFeatures \<lparr>fv_ks = ks, fv_mouse = mouse, fv_click = click\<rparr>),
                     p_digraphs = digraphs (RAW A), p_trigraphs = trigraphs (RAW A),
                     p_size = \<lparr>sz_keystrokes = length (ksEvents (RAW A)),
                               sz_mouse = length (mouseEvts (RAW A)),
                               sz_clicks = length (clicks (RAW A)),
                               sz_digraphs = length (digraphs (RAW A))\<rparr>,
                     p_v = ''3.0''\<rparr>
            in A\<lparr>SESSION := (SESSION A)\<lparr>profile := Some p, isTraining := False,
                                          phase := Complete\<rparr>,
                  store := (store A)\<lparr>st_profile := Some p, st_training := None\<rparr>\<rparr>))"

text \<open>The local \<^verbatim>\<open>pct\<close> of \<^verbatim>\<open>checkTrainingProgress\<close>.\<close>

definition trainPct :: "'p session \<Rightarrow> real" where
  "trainPct S =
     (let target = (if phase S = Quick then QUICK_TARGET else FULL_TARGET)
      in min 100 ((real_of_int (activeTime S) / real_of_int target) * 100))"

definition checkTrainingProgress ::
  "int \<Rightarrow> string \<Rightarrow> int \<Rightarrow> behavior_profile app \<Rightarrow> behavior_profile app" where
  "checkTrainingProgress now rnd now' A =
     (if trainPct (SESSION A) \<ge> 100 then
        (if phase (SESSION A) = Quick
         then A\<lparr>SESSION := (SESSION A)\<lparr>phase := Intermediate, activeTime := 0,
                                         lastActive := Some now\<rparr>\<rparr>
         else completeTraining rnd now' A)
      else A)"

text \<open>\<^verbatim>\<open>resetProfile\<close>; \<open>nc\<close> is the value drawn by \<^verbatim>\<open>_nonce()\<close>.\<close>

definition resetProfile :: "nonce_t \<Rightarrow> 'p app \<Rightarrow> 'p app" where
  "resetProfile nc A =
     A\<lparr>SESSION := (SESSION A)\<lparr>profile := None, isTraining := True, phase := Quick,
                                activeTime := 0, lastActive := None, trustScore := None,
                                consecutive := 0, trainStart := None\<rparr>,
       RAW := (RAW A)\<lparr>ksEvents := [], mouseEvts := [], clicks := [], scrolls := [],
                       digraphs := [], trigraphs := [], jitterBuf := [],
                       lastRelease := None, nonce := nc\<rparr>,
       ALERTS := [],
       store := \<lparr>st_profile = None, st_training = None, st_alerts = []\<rparr>\<rparr>"

text \<open>A value returned by \<^verbatim>\<open>JSON.parse\<close>.\<close>

datatype json =
  JNull | JBool bool | JNum real | JStr string | JArr "json list" | JObj "(string \<times> json) list"

text \<open>
  The \<^verbatim>\<open>import-profile\<close> handler (lines 564-571). \<open>filePaths\<close> is what the open dialog
  returned; \<open>parsed\<close> is the outcome of
  \<^verbatim>\<open>JSON.parse(require('fs').readFileSync(filePaths[0],'utf8'))\<close>: \<open>Inl\<close> the exception
  it throws, \<open>Inr\<close> the parsed value. The result is the handler's outcome (\<open>Inl\<close> a
  rejection that reaches the caller, \<open>Inr\<close> the returned boolean) and the state after.
\<close>

definition importProfile ::
  "string list \<Rightarrow> string + json \<Rightarrow> json app \<Rightarrow> (string + bool) \<times> json app" where
  "importProfile filePaths parsed A =
     (if filePaths = [] then (Inr False, A)
      else
        (case parsed of
           Inl err \<Rightarrow> (Inl err, A)
         | Inr rawdoc \<Rightarrow>
             (Inr True,
              A\<lparr>SESSION := (SESSION A)\<lparr>profile := Some rawdoc, isTraining := False\<rparr>,
                store := (store A)\<lparr>st_profile := Some rawdoc\<rparr>\<rparr>)))"

section \<open>The dwell filter of the key-up handler\<close>

text \<open>The event that a retained key-up appends.\<close>

definition keyEventOf :: "raw \<Rightarrow> int \<Rightarrow> int \<Rightarrow> int \<Rightarrow> key_event" where
  "keyEventOf R t kc dn =
     \<lparr>k_kc = kc, k_dwell = t - dn,
      k_flight = (if truthy (lastRelease R) then Some (dn - the (lastRelease R)) else None),
      k_ts = dn, k_nonce = nonce R\<rparr>"

lemma ksEvents_resolve_retained:
  assumes "1 \<le> t - dn" "t - dn \<le> 1000"
  shows "ksEvents (resolveKeyUp t kc dn R) =
           (if length (ksEvents R) \<ge> 3000 then tl (ksEvents R @ [keyEventOf R t kc dn])
            else ksEvents R @ [keyEventOf R t kc dn])"
  using assms
  by (auto simp: resolveKeyUp_def keyEventOf_def truthy_def Let_def split: option.splits)

lemma resolve_discarded:
  assumes "t - dn < 1 \<or> 1000 < t - dn"
  shows "resolveKeyUp t kc dn R =
           R\<lparr>keydowns := (keydowns R)(kc := None), lastRelease := Some t\<rparr>"
  using assms by (auto simp: resolveKeyUp_def Let_def)

text \<open>A monitored session in which key 65 was pressed at time 5000 and is still down.\<close>

definition app_key_down :: "unit app" where
  "app_key_down = onKeyDown 5000 5000 65 ((app_init ''n0'' 1000)\<lparr>isMonitoring := True\<rparr>)"

lemma RAW_onKeyUp:
  assumes "isMonitoring A" "enabled (SETTINGS A)"
  shows "RAW (onKeyUp now t kc A) =
           (case keydowns (RAW A) kc of None \<Rightarrow> RAW A
            | Some dn \<Rightarrow> resolveKeyUp t kc dn (RAW A))"
  using assms by (simp add: onKeyUp_def Let_def split: option.splits)

lemma RAW_onKeyDown:
  assumes "isMonitoring A" "enabled (SETTINGS A)"
  shows "RAW (onKeyDown now t kc A) =
           (if keydowns (RAW A) kc = None
            then (RAW A)\<lparr>keydowns := (keydowns (RAW A))(kc \<mapsto> t)\<rparr> else RAW A)"
  using assms by (simp add: onKeyDown_def Let_def)

lemma app_key_down_simps:
  "isMonitoring app_key_down" "enabled (SETTINGS app_key_down)"
  "RAW app_key_down = (RAW_init ''n0'')\<lparr>keydowns := [65 \<mapsto> 5000]\<rparr>"
  by (simp_all add: app_key_down_def onKeyDown_def app_init_def default_settings_def
      RAW_init_def Let_def)

text \<open>
  Claim C5. While monitoring is on and the enabling setting is set, a key-up whose key
  code has a pending press \<open>dn\<close> computes the dwell \<open>t - dn\<close>. When the dwell lies in
  [1,1000] the handler appends the key event (key code, dwell, flight, press time,
  nonce) to the keystroke buffer, dropping the oldest event when the buffer would exceed
  3000. When the dwell lies outside [1,1000] the keystroke buffer and the digraph and
  trigraph maps are unchanged. A key-up without a pending press leaves all raw data
  unchanged.
\<close>

theorem onKeyUp_dwell_filter:
  assumes "isMonitoring A" and "enabled (SETTINGS A)"
  shows "(keydowns (RAW A) kc = Some dn \<and> 1 \<le> t - dn \<and> t - dn \<le> 1000 \<longrightarrow>
            ksEvents (RAW (onKeyUp now t kc A)) =
              (if length (ksEvents (RAW A)) \<ge> 3000
               then tl (ksEvents (RAW A) @ [keyEventOf (RAW A) t kc dn])
               else ksEvents (RAW A) @ [keyEventOf (RAW A) t kc dn]) \<and>
            last (ksEvents (RAW (onKeyUp now t kc A))) = keyEventOf (RAW A) t kc dn) \<and>
         (keydowns (RAW A) kc = Some dn \<and> (t - dn < 1 \<or> 1000 < t - dn) \<longrightarrow>
            ksEvents (RAW (onKeyUp now t kc A)) = ksEvents (RAW A) \<and>
            digraphs (RAW (onKeyUp now t kc A)) = digraphs (RAW A) \<and>
            trigraphs (RAW (onKeyUp now t kc A)) = trigraphs (RAW A)) \<and>
         (keydowns (RAW A) kc = None \<longrightarrow> RAW (onKeyUp now t kc A) = RAW A)"
proof (intro conjI impI)
  assume h: "keydowns (RAW A) kc = Some dn \<and> 1 \<le> t - dn \<and> t - dn \<le> 1000"
  let ?ev = "keyEventOf (RAW A) t kc dn"
  show eq: "ksEvents (RAW (onKeyUp now t kc A)) =
              (if length (ksEvents (RAW A)) \<ge> 3000 then tl (ksEvents (RAW A) @ [?ev])
               else ksEvents (RAW A) @ [?ev])"
    using h assms by (simp add: RAW_onKeyUp ksEvents_resolve_retained)
  show "last (ksEvents (RAW (onKeyUp now t kc A))) = ?ev"
  proof (cases "length (ksEvents (RAW A)) \<ge> 3000")
    case True
    then have "ksEvents (RAW A) \<noteq> []" by auto
    then have "tl (ksEvents (RAW A) @ [?ev]) = tl (ksEvents (RAW A)) @ [?ev]" by simp
    with eq True show ?thesis by simp
  next
    case False
    with eq show ?thesis by simp
  qed
next
  assume h: "keydowns (RAW A) kc = Some dn \<and> (t - dn < 1 \<or> 1000 < t - dn)"
  then have r: "RAW (onKeyUp now t kc A) =
                  (RAW A)\<lparr>keydowns := (keydowns (RAW A))(kc := None), lastRelease := Some t\<rparr>"
    using assms by (simp add: RAW_onKeyUp resolve_discarded)
  show "ksEvents (RAW (onKeyUp now t kc A)) = ksEvents (RAW A)" by (simp add: r)
  show "digraphs (RAW (onKeyUp now t kc A)) = digraphs (RAW A)" by (simp add: r)
  show "trigraphs (RAW (onKeyUp now t kc A)) = trigraphs (RAW A)" by (simp add: r)
next
  assume "keydowns (RAW A) kc = None"
  then show "RAW (onKeyUp now t kc A) = RAW A"
    using assms by (simp add: RAW_onKeyUp)
qed

text \<open>
  The three cases at concrete inputs: key 65, pressed at 5000, is released at 5120
  (dwell 120, recorded), at 7000 (dwell 2000, discarded), and key 66, never pressed,
  is released at 5120.
\<close>

theorem onKeyUp_dwell_filter_witness:
  "ksEvents (RAW (onKeyUp 5120 5120 65 app_key_down)) =
     [\<lparr>k_kc = 65, k_dwell = 120, k_flight = None, k_ts = 5000, k_nonce = ''n0''\<rparr>] \<and>
   ksEvents (RAW (onKeyUp 7000 7000 65 app_key_down)) = [] \<and>
   RAW (onKeyUp 5120 5120 66 app_key_down) = RAW app_key_down"
proof -
  have k: "keydowns (RAW app_key_down) 65 = Some 5000" "keydowns (RAW app_key_down) 66 = None"
    by (simp_all add: app_key_down_simps)
  have e: "ksEvents (RAW app_key_down) = []" "lastRelease (RAW app_key_down) = None"
    "nonce (RAW app_key_down) = ''n0''"
    by (simp_all add: app_key_down_simps RAW_init_def)
  have 1: "ksEvents (RAW (onKeyUp 5120 5120 65 app_key_down)) =
             [keyEventOf (RAW app_key_down) 5120 65 5000]"
    using onKeyUp_dwell_filter [OF app_key_down_simps(1,2), of 65 5000 5120 5120] k e
    by simp
  have 2: "ksEvents (RAW (onKeyUp 7000 7000 65 app_key_down)) = []"
    using onKeyUp_dwell_filter [OF app_key_down_simps(1,2), of 65 5000 7000 7000] k e
    by simp
  have 3: "RAW (onKeyUp 5120 5120 66 app_key_down) = RAW app_key_down"
    using onKeyUp_dwell_filter [OF app_key_down_simps(1,2), of 66 0 5120 5120] k
    by simp
  show ?thesis using 1 2 3 e by (simp add: keyEventOf_def truthy_def)
qed

section \<open>The flight-time reference after a discarded key-up\<close>

text \<open>A run of key-down events, each with its two clock readings and its key code.\<close>

definition pressKeys :: "(int \<times> int \<times> int) list \<Rightarrow> 'p app \<Rightarrow> 'p app" where
  "pressKeys evs A = foldl (\<lambda>s (now, t, kc). onKeyDown now t kc s) A evs"

lemma onKeyDown_frame:
  "isMonitoring (onKeyDown now t kc A) = isMonitoring A"
  "SETTINGS (onKeyDown now t kc A) = SETTINGS A"
  "lastRelease (RAW (onKeyDown now t kc A)) = lastRelease (RAW A)"
  "ksEvents (RAW (onKeyDown now t kc A)) = ksEvents (RAW A)"
  "nonce (RAW (onKeyDown now t kc A)) = nonce (RAW A)"
  by (simp_all add: onKeyDown_def Let_def)

lemma pressKeys_frame:
  "isMonitoring (pressKeys evs A) = isMonitoring A \<and>
   SETTINGS (pressKeys evs A) = SETTINGS A \<and>
   lastRelease (RAW (pressKeys evs A)) = lastRelease (RAW A) \<and>
   ksEvents (RAW (pressKeys evs A)) = ksEvents (RAW A) \<and>
   nonce (RAW (pressKeys evs A)) = nonce (RAW A)"
proof (induction evs arbitrary: A)
  case Nil
  show ?case by (simp add: pressKeys_def)
next
  case (Cons e evs)
  obtain now t kc where e: "e = (now, t, kc)" by (cases e) auto
  have step: "pressKeys (e # evs) A = pressKeys evs (onKeyDown now t kc A)"
    by (simp add: pressKeys_def e)
  show ?case unfolding step using Cons.IH [of "onKeyDown now t kc A"]
    by (simp add: onKeyDown_frame)
qed

lemma onKeyUp_frame:
  "isMonitoring (onKeyUp now t kc A) = isMonitoring A"
  "SETTINGS (onKeyUp now t kc A) = SETTINGS A"
  by (simp_all add: onKeyUp_def Let_def split: option.splits)

lemma resolveKeyUp_marks:
  "keydowns (resolveKeyUp t kc dn R) kc = None"
  "lastRelease (resolveKeyUp t kc dn R) = Some t"
  "nonce (resolveKeyUp t kc dn R) = nonce R"
  by (simp_all add: resolveKeyUp_def Let_def)

lemma last_ksEvents_resolve:
  assumes "1 \<le> t - dn" "t - dn \<le> 1000"
  shows "last (ksEvents (resolveKeyUp t kc dn R)) = keyEventOf R t kc dn"
proof (cases "length (ksEvents R) \<ge> 3000")
  case True
  then have "ksEvents R \<noteq> []" by auto
  then have "tl (ksEvents R @ [keyEventOf R t kc dn]) = tl (ksEvents R) @ [keyEventOf R t kc dn]"
    by simp
  with True assms show ?thesis by (simp add: ksEvents_resolve_retained)
next
  case False
  with assms show ?thesis by (simp add: ksEvents_resolve_retained)
qed

text \<open>
  Claim C9. A key-up at time \<open>t1\<close> that resolves a pending press removes the pending
  entry and sets the last-release marker to \<open>t1\<close>, whatever the dwell. When that key-up is
  discarded by the dwell filter (and the clock reading \<open>t1\<close> is not 0, the one value the
  handler's truthiness test takes for "no release yet"), then after any run of key-down
  events the next retained key-up, of a press at \<open>dn2\<close>, records the flight \<open>dn2 - t1\<close>:
  the reference is the release of the discarded event, not the release stored before it.
\<close>

theorem discarded_keyup_is_flight_reference:
  assumes "isMonitoring A" and "enabled (SETTINGS A)"
    and "keydowns (RAW A) kc1 = Some dn1"
    and "A1 = onKeyUp now1 t1 kc1 A"
    and "A2 = pressKeys downs A1"
  shows "keydowns (RAW A1) kc1 = None \<and> lastRelease (RAW A1) = Some t1 \<and>
         ((t1 - dn1 < 1 \<or> 1000 < t1 - dn1) \<and> t1 \<noteq> 0 \<and>
          keydowns (RAW A2) kc2 = Some dn2 \<and> 1 \<le> t2 - dn2 \<and> t2 - dn2 \<le> 1000 \<longrightarrow>
            ksEvents (RAW A1) = ksEvents (RAW A) \<and>
            last (ksEvents (RAW (onKeyUp now2 t2 kc2 A2))) =
              \<lparr>k_kc = kc2, k_dwell = t2 - dn2, k_flight = Some (dn2 - t1), k_ts = dn2,
               k_nonce = nonce (RAW A)\<rparr>)"
proof -
  have r1: "RAW A1 = resolveKeyUp t1 kc1 dn1 (RAW A)"
    using assms by (simp add: RAW_onKeyUp)
  have m2: "isMonitoring A2" "enabled (SETTINGS A2)"
    using assms by (simp_all add: pressKeys_frame onKeyUp_frame)
  have l2: "lastRelease (RAW A2) = Some t1" "nonce (RAW A2) = nonce (RAW A)"
    using assms(5) r1 by (simp_all add: pressKeys_frame resolveKeyUp_marks)
  show ?thesis
  proof (intro conjI impI)
    show "keydowns (RAW A1) kc1 = None" by (simp add: r1 resolveKeyUp_marks)
    show "lastRelease (RAW A1) = Some t1" by (simp add: r1 resolveKeyUp_marks)
  next
    assume h: "(t1 - dn1 < 1 \<or> 1000 < t1 - dn1) \<and> t1 \<noteq> 0 \<and>
               keydowns (RAW A2) kc2 = Some dn2 \<and> 1 \<le> t2 - dn2 \<and> t2 - dn2 \<le> 1000"
    then show "ksEvents (RAW A1) = ksEvents (RAW A)"
      by (simp add: r1 resolve_discarded)
    have "RAW (onKeyUp now2 t2 kc2 A2) = resolveKeyUp t2 kc2 dn2 (RAW A2)"
      using h m2 by (simp add: RAW_onKeyUp)
    then have "last (ksEvents (RAW (onKeyUp now2 t2 kc2 A2))) = keyEventOf (RAW A2) t2 kc2 dn2"
      using h by (simp add: last_ksEvents_resolve)
    then show "last (ksEvents (RAW (onKeyUp now2 t2 kc2 A2))) =
                 \<lparr>k_kc = kc2, k_dwell = t2 - dn2, k_flight = Some (dn2 - t1), k_ts = dn2,
                  k_nonce = nonce (RAW A)\<rparr>"
      using h l2 by (simp add: keyEventOf_def truthy_def)
  qed
qed

text \<open>
  Key 65, pressed at 5000, is released at 7000 (dwell 2000, discarded); key 66 is
  pressed at 7100 and released at 7200: its event is recorded with flight 100.
\<close>

theorem discarded_keyup_is_flight_reference_witness:
  "keydowns (RAW (onKeyUp 7000 7000 65 app_key_down)) 65 = None \<and>
   lastRelease (RAW (onKeyUp 7000 7000 65 app_key_down)) = Some 7000 \<and>
   last (ksEvents (RAW (onKeyUp 7200 7200 66
      (pressKeys [(7100, 7100, 66)] (onKeyUp 7000 7000 65 app_key_down))))) =
     \<lparr>k_kc = 66, k_dwell = 100, k_flight = Some 100, k_ts = 7100, k_nonce = ''n0''\<rparr>"
proof -
  let ?A1 = "onKeyUp 7000 7000 65 app_key_down"
  let ?A2 = "pressKeys [(7100, 7100, 66)] ?A1"
  have k: "keydowns (RAW app_key_down) 65 = Some 5000" "nonce (RAW app_key_down) = ''n0''"
    by (simp_all add: app_key_down_simps RAW_init_def)
  have m1: "isMonitoring ?A1" "enabled (SETTINGS ?A1)"
    by (simp_all add: onKeyUp_frame app_key_down_simps)
  have "keydowns (RAW ?A1) 66 = None"
    using k by (simp add: RAW_onKeyUp app_key_down_simps resolve_discarded RAW_init_def)
  then have k2: "keydowns (RAW ?A2) 66 = Some 7100"
    using m1 by (simp add: pressKeys_def RAW_onKeyDown)
  show ?thesis
    using discarded_keyup_is_flight_reference [OF app_key_down_simps(1,2) k(1) refl refl,
        of 7000 7000 "[(7100, 7100, 66)]" 66 7100 7200 7200] k k2
    by simp
qed

section \<open>Qualifying events of keystroke feature extraction\<close>



text \<open>A buffered event of key 65 with the given dwell.\<close>

definition ev_dwell :: "int \<Rightarrow> key_event" where
  "ev_dwell d = \<lparr>k_kc = 65, k_dwell = d, k_flight = None, k_ts = 5000, k_nonce = ''n0''\<rparr>"










section \<open>The training state machine\<close>

lemma pct_reached:
  fixes a T :: real
  assumes "T > 0"
  shows "(100 \<le> min 100 (a / T * 100)) = (T \<le> a)"
  using assms by (simp add: pos_le_divide_eq)

lemma trainPct_reached:
  "trainPct S \<ge> 100 \<longleftrightarrow>
     activeTime S \<ge> (if phase S = Quick then QUICK_TARGET else FULL_TARGET)"
proof -
  let ?T = "if phase S = Quick then QUICK_TARGET else FULL_TARGET"
  have pos: "0 < real_of_int ?T"
    by (simp add: QUICK_TARGET_def FULL_TARGET_def)
  have "trainPct S \<ge> 100 \<longleftrightarrow> real_of_int ?T \<le> real_of_int (activeTime S)"
    unfolding trainPct_def Let_def using pct_reached [OF pos] by simp
  then show ?thesis by simp
qed

text \<open>Raw data holding fifty retained key events, and a session in training.\<close>

definition raw_typing :: raw where
  "raw_typing = (RAW_init ''n0'')\<lparr>ksEvents := replicate 50 (ev_dwell 100)\<rparr>"

lemma raw_typing_extract:
  "extractKS raw_typing \<noteq> None" "extractMouse raw_typing = None" "extractClick raw_typing = None"
  by (simp_all add: raw_typing_def extractKS_def extractMouse_def extractClick_def RAW_init_def
      ev_dwell_def qualifying_def Let_def)

definition app_training :: "phase \<Rightarrow> int \<Rightarrow> raw \<Rightarrow> behavior_profile app" where
  "app_training ph act R =
     (app_init ''n0'' 1000)\<lparr>isMonitoring := True, RAW := R,
        SESSION := (SESSION_init 1000)\<lparr>phase := ph, activeTime := act\<rparr>\<rparr>"

text \<open>
  Claim C7. In \<open>checkTrainingProgress\<close> the progress reaches 100 exactly when the active
  time is at least the target of the phase (30 minutes in \<open>Quick\<close>, 120 minutes in
  \<open>Intermediate\<close>). At 100 in \<open>Quick\<close> the phase becomes \<open>Intermediate\<close> and the active
  time 0. At 100 in \<open>Intermediate\<close>, completion changes nothing (so creates no profile)
  when neither a keystroke nor a mouse feature vector is extractable; otherwise it stores
  a profile made of the extracted features with schema version "3.0", turns training off
  and sets the phase to \<open>Complete\<close>.
\<close>

theorem training_state_machine:
  "(phase (SESSION A) = Quick \<longrightarrow>
      (trainPct (SESSION A) \<ge> 100 \<longleftrightarrow> activeTime (SESSION A) \<ge> 30 * 60 * 1000)) \<and>
   (phase (SESSION A) = Intermediate \<longrightarrow>
      (trainPct (SESSION A) \<ge> 100 \<longleftrightarrow> activeTime (SESSION A) \<ge> 120 * 60 * 1000)) \<and>
   (phase (SESSION A) = Quick \<and> trainPct (SESSION A) \<ge> 100 \<longrightarrow>
      checkTrainingProgress now rnd now' A =
        A\<lparr>SESSION := (SESSION A)\<lparr>phase := Intermediate, activeTime := 0,
                                   lastActive := Some now\<rparr>\<rparr>) \<and>
   (phase (SESSION A) = Intermediate \<and> trainPct (SESSION A) \<ge> 100 \<and>
    extractKS (RAW A) = None \<and> extractMouse (RAW A) = None \<longrightarrow>
      checkTrainingProgress now rnd now' A = A) \<and>
   (phase (SESSION A) = Intermediate \<and> trainPct (SESSION A) \<ge> 100 \<and>
    (extractKS (RAW A) \<noteq> None \<or> extractMouse (RAW A) \<noteq> None) \<longrightarrow>
      (\<exists>p. profile (SESSION (checkTrainingProgress now rnd now' A)) = Some p \<and>
           p_v p = ''3.0'' \<and> features p = Some (numFeatures (currentFeatures (RAW A))) \<and>
           st_profile (store (checkTrainingProgress now rnd now' A)) = Some p) \<and>
      \<not> isTraining (SESSION (checkTrainingProgress now rnd now' A)) \<and>
      phase (SESSION (checkTrainingProgress now rnd now' A)) = Complete)"
proof (intro conjI impI)
  show "trainPct (SESSION A) \<ge> 100 \<longleftrightarrow> activeTime (SESSION A) \<ge> 30 * 60 * 1000"
    if "phase (SESSION A) = Quick"
    using that by (simp add: trainPct_reached QUICK_TARGET_def)
  show "trainPct (SESSION A) \<ge> 100 \<longleftrightarrow> activeTime (SESSION A) \<ge> 120 * 60 * 1000"
    if "phase (SESSION A) = Intermediate"
    using that by (simp add: trainPct_reached FULL_TARGET_def)
  show "checkTrainingProgress now rnd now' A =
        A\<lparr>SESSION := (SESSION A)\<lparr>phase := Intermediate, activeTime := 0,
                                   lastActive := Some now\<rparr>\<rparr>"
    if "phase (SESSION A) = Quick \<and> trainPct (SESSION A) \<ge> 100"
    using that by (simp add: checkTrainingProgress_def)
  show "checkTrainingProgress now rnd now' A = A"
    if "phase (SESSION A) = Intermediate \<and> trainPct (SESSION A) \<ge> 100 \<and>
        extractKS (RAW A) = None \<and> extractMouse (RAW A) = None"
    using that by (simp add: checkTrainingProgress_def completeTraining_def)
next
  assume h: "phase (SESSION A) = Intermediate \<and> trainPct (SESSION A) \<ge> 100 \<and>
             (extractKS (RAW A) \<noteq> None \<or> extractMouse (RAW A) \<noteq> None)"
  then have c: "checkTrainingProgress now rnd now' A = completeTraining rnd now' A"
    by (simp add: checkTrainingProgress_def)
  from h show "\<exists>p. profile (SESSION (checkTrainingProgress now rnd now' A)) = Some p \<and>
           p_v p = ''3.0'' \<and> features p = Some (numFeatures (currentFeatures (RAW A))) \<and>
           st_profile (store (checkTrainingProgress now rnd now' A)) = Some p"
    unfolding c by (auto simp: completeTraining_def currentFeatures_def Let_def)
  from h show "\<not> isTraining (SESSION (checkTrainingProgress now rnd now' A))"
    unfolding c by (auto simp: completeTraining_def Let_def)
  from h show "phase (SESSION (checkTrainingProgress now rnd now' A)) = Complete"
    unfolding c by (auto simp: completeTraining_def Let_def)
qed

lemma app_training_simps:
  "phase (SESSION (app_training ph act R)) = ph"
  "activeTime (SESSION (app_training ph act R)) = act"
  "RAW (app_training ph act R) = R"
  "profile (SESSION (app_training ph act R)) = None"
  by (simp_all add: app_training_def SESSION_init_def)

lemma RAW_init_extract:
  "extractKS (RAW_init nc) = None" "extractMouse (RAW_init nc) = None"
  by (simp_all add: extractKS_def extractMouse_def RAW_init_def)

text \<open>
  A Quick phase with 30 minutes of active time; an Intermediate phase with 120 minutes
  and empty buffers; the same with fifty buffered key events.
\<close>

theorem training_state_machine_witness:
  "phase (SESSION (checkTrainingProgress 5000 ''a1b2c3d4e5f6'' 5000
            (app_training Quick 1800000 (RAW_init ''n0'')))) = Intermediate \<and>
   activeTime (SESSION (checkTrainingProgress 5000 ''a1b2c3d4e5f6'' 5000
            (app_training Quick 1800000 (RAW_init ''n0'')))) = 0 \<and>
   checkTrainingProgress 5000 ''a1b2c3d4e5f6'' 5000
     (app_training Intermediate 7200000 (RAW_init ''n0'')) =
     app_training Intermediate 7200000 (RAW_init ''n0'') \<and>
   (\<exists>p. profile (SESSION (checkTrainingProgress 5000 ''a1b2c3d4e5f6'' 5000
            (app_training Intermediate 7200000 raw_typing))) = Some p \<and> p_v p = ''3.0'') \<and>
   \<not> isTraining (SESSION (checkTrainingProgress 5000 ''a1b2c3d4e5f6'' 5000
            (app_training Intermediate 7200000 raw_typing))) \<and>
   phase (SESSION (checkTrainingProgress 5000 ''a1b2c3d4e5f6'' 5000
            (app_training Intermediate 7200000 raw_typing))) = Complete"
proof -
  note t1 = training_state_machine [of "app_training Quick 1800000 (RAW_init ''n0'')"
      5000 "''a1b2c3d4e5f6''" 5000]
  note t2 = training_state_machine [of "app_training Intermediate 7200000 (RAW_init ''n0'')"
      5000 "''a1b2c3d4e5f6''" 5000]
  note t3 = training_state_machine [of "app_training Intermediate 7200000 raw_typing"
      5000 "''a1b2c3d4e5f6''" 5000]
  have 1: "checkTrainingProgress 5000 ''a1b2c3d4e5f6'' 5000
            (app_training Quick 1800000 (RAW_init ''n0'')) =
           (app_training Quick 1800000 (RAW_init ''n0''))\<lparr>SESSION :=
              (SESSION (app_training Quick 1800000 (RAW_init ''n0'')))\<lparr>phase := Intermediate,
                 activeTime := 0, lastActive := Some 5000\<rparr>\<rparr>"
    using t1 by (simp add: app_training_simps)
  have 2: "checkTrainingProgress 5000 ''a1b2c3d4e5f6'' 5000
     (app_training Intermediate 7200000 (RAW_init ''n0'')) =
     app_training Intermediate 7200000 (RAW_init ''n0'')"
    using t2 by (simp add: app_training_simps RAW_init_extract)
  have 3: "(\<exists>p. profile (SESSION (checkTrainingProgress 5000 ''a1b2c3d4e5f6'' 5000
            (app_training Intermediate 7200000 raw_typing))) = Some p \<and> p_v p = ''3.0'') \<and>
   \<not> isTraining (SESSION (checkTrainingProgress 5000 ''a1b2c3d4e5f6'' 5000
            (app_training Intermediate 7200000 raw_typing))) \<and>
   phase (SESSION (checkTrainingProgress 5000 ''a1b2c3d4e5f6'' 5000
            (app_training Intermediate 7200000 raw_typing))) = Complete"
    using t3 raw_typing_extract(1) by (simp add: app_training_simps) blast
  show ?thesis using 2 3 by (simp add: 1)
qed

section \<open>A trained session\<close>

text \<open>
  The session that results when training completes over \<open>raw_typing\<close>, and the profile
  it stores.
\<close>

definition trained_profile :: behavior_profile where
  "trained_profile =
     \<lparr>uid = ''user_a1b2c3d4e5f6'', createdAt = 5000,
      features = Some (numFeatures (currentFeatures raw_typing)),
      p_digraphs = [], p_trigraphs = [],
      p_size = \<lparr>sz_keystrokes = 50, sz_mouse = 0, sz_clicks = 0, sz_digraphs = 0\<rparr>,
      p_v = ''3.0''\<rparr>"

definition app_trained :: "behavior_profile app" where
  "app_trained =
     checkTrainingProgress 5000 ''a1b2c3d4e5f6'' 5000
       (app_training Intermediate 7200000 raw_typing)"

lemma app_trained_simps:
  "RAW app_trained = raw_typing"
  "profile (SESSION app_trained) = Some trained_profile"
  "trustScore (SESSION app_trained) = None"
proof -
  have p: "trainPct (SESSION (app_training Intermediate 7200000 raw_typing)) \<ge> 100"
    by (simp add: trainPct_reached app_training_simps FULL_TARGET_def)
  have c: "app_trained =
             completeTraining ''a1b2c3d4e5f6'' 5000 (app_training Intermediate 7200000 raw_typing)"
    using p by (simp add: app_trained_def checkTrainingProgress_def app_training_simps)
  have l: "length (ksEvents raw_typing) = 50" "mouseEvts raw_typing = []" "clicks raw_typing = []"
    "digraphs raw_typing = []" "trigraphs raw_typing = []"
    by (simp_all add: raw_typing_def RAW_init_def)
  show "RAW app_trained = raw_typing"
    unfolding c by (simp add: completeTraining_def Let_def app_training_simps)
  show "profile (SESSION app_trained) = Some trained_profile"
    unfolding c using raw_typing_extract(1)
    by (simp add: completeTraining_def Let_def app_training_simps trained_profile_def
        currentFeatures_def l)
  show "trustScore (SESSION app_trained) = None"
    unfolding c by (simp add: completeTraining_def Let_def app_training_def SESSION_init_def)
qed

section \<open>Channel deviations and the overall risk\<close>

text \<open>
  The deviation of one metric as the specification words it, and the list of the
  deviations that a channel counts, each metric given as (current, baseline, tolerance):
  a metric is counted when its baseline is a positive number. The deviation
  \<open>channelDev\<close> of the channel is their mean, 0 when none is counted, as \<^verbatim>\<open>n?d/n:0\<close> has
  it; it is \<^verbatim>\<open>NaN\<close> when a baseline is \<^verbatim>\<open>Infinity\<close>, which passes \<^verbatim>\<open>bv>0\<close> and makes
  the quotient \<^verbatim>\<open>Infinity/Infinity\<close>.
\<close>

definition metricDev :: "real \<Rightarrow> real \<Rightarrow> real \<Rightarrow> real" where
  "metricDev cv bv tol = min 1 (\<bar>cv - bv\<bar> / bv / tol) * 100"

definition countedDevs :: "(real \<times> jsnum \<times> real) list \<Rightarrow> real list" where
  "countedDevs ms =
     concat (map (\<lambda>(cv, bv, tol).
                    case bv of Num b \<Rightarrow> if b > 0 then [metricDev cv b tol] else [] | _ \<Rightarrow> [])
                 ms)"

definition channelDev :: "(real \<times> jsnum \<times> real) list \<Rightarrow> jsnum" where
  "channelDev ms =
     (if list_ex (\<lambda>(cv, bv, tol). bv = PInf) ms then NaN else Num (mean (countedDevs ms)))"

text \<open>
  The reading of the specification's own words: a metric is counted when its baseline
  is nonzero.
\<close>

definition claimed_channelDev :: "(real \<times> jsnum \<times> real) list \<Rightarrow> real" where
  "claimed_channelDev ms =
     mean (concat (map (\<lambda>(cv, bv, tol).
                          case bv of Num b \<Rightarrow> if b \<noteq> 0 then [metricDev cv b tol] else []
                                   | _ \<Rightarrow> [])
                       ms))"

text \<open>
  The absolute deviation of the mouse curvature and entropy, which are compared without
  a guard and without a division: 100 against an infinite baseline.
\<close>

definition absDev :: "real \<Rightarrow> jsnum \<Rightarrow> real" where
  "absDev cv bv = (case bv of Num b \<Rightarrow> min 1 \<bar>cv - b\<bar> * 100 | _ \<Rightarrow> 100)"

text \<open>
  The deviation of the mouse channel in closed form: the mean of the relative velocity
  deviation, counted when the baseline velocity is a positive number, and of the
  absolute curvature and entropy deviations, always counted; \<^verbatim>\<open>NaN\<close> when the baseline
  curvature or entropy is \<^verbatim>\<open>NaN\<close> or the baseline velocity is \<^verbatim>\<open>Infinity\<close>.
\<close>

definition mouseDev :: "mouse_features \<Rightarrow> jsnum mouse_feats \<Rightarrow> jsnum" where
  "mouseDev c b =
     (if avgVel b = PInf \<or> curvature b = NaN \<or> entropy b = NaN then NaN
      else Num (mean ((case avgVel b of
                         Num bv \<Rightarrow> if bv > 0 then [min 1 (\<bar>avgVel c - bv\<bar> / bv) * 100] else []
                       | _ \<Rightarrow> []) @
                      [absDev (curvature c) (curvature b), absDev (entropy c) (entropy b)])))"

text \<open>
  The channel weights divided by their total, and the mean of the channel deviations
  under these weights (\<^verbatim>\<open>NaN\<close> when a deviation is not a finite number).
\<close>

definition normWeights :: "part list \<Rightarrow> real list" where
  "normWeights parts = map (\<lambda>x. p_w x / sum_list (map p_w parts)) parts"

fun isNum :: "jsnum \<Rightarrow> bool" where
  "isNum (Num x) = True"
| "isNum _ = False"

fun numOf :: "jsnum \<Rightarrow> real" where
  "numOf (Num x) = x"
| "numOf _ = 0"

definition weightedMean :: "part list \<Rightarrow> jsnum" where
  "weightedMean parts =
     (if list_all (\<lambda>x. isNum (p_r x)) parts
      then Num (sum_list (map (\<lambda>(x, w). numOf (p_r x) * w) (zip parts (normWeights parts))))
      else NaN)"

lemma cmp_Num:
  assumes "tol \<noteq> 0"
  shows "cmp (Num d, n) cv bv tol =
           (case bv of
              Num b \<Rightarrow> if b > 0 then (Num (d + metricDev cv b tol), Suc n) else (Num d, n)
            | PInf \<Rightarrow> (NaN, Suc n)
            | _ \<Rightarrow> (Num d, n))"
  using assms by (cases bv) (auto simp: cmp_def metricDev_def)

lemma cmp_NaN: "\<exists>n'. cmp (NaN, n) cv bv tol = (NaN, n') \<and> n \<le> n'"
  by (simp add: cmp_def)

lemma foldl_cmp_NaN:
  "\<exists>n'. foldl (\<lambda>acc (cv, bv, tol). cmp acc cv bv tol) (NaN, n) ms = (NaN, n') \<and> n \<le> n'"
proof (induction ms arbitrary: n)
  case Nil
  show ?case by simp
next
  case (Cons m ms)
  obtain cv bv tol where m: "m = (cv, bv, tol)" by (cases m) auto
  obtain n1 where n1: "cmp (NaN, n) cv bv tol = (NaN, n1)" "n \<le> n1"
    using cmp_NaN [of n cv bv tol] by auto
  obtain n2 where "foldl (\<lambda>acc (cv, bv, tol). cmp acc cv bv tol) (NaN, n1) ms = (NaN, n2)"
    "n1 \<le> n2"
    using Cons.IH [of n1] by auto
  then show ?case using n1 by (simp add: m)
qed

lemma foldl_cmp:
  assumes "list_all (\<lambda>m. snd (snd m) \<noteq> 0) ms" "\<not> list_ex (\<lambda>(cv, bv, tol). bv = PInf) ms"
  shows "foldl (\<lambda>acc (cv, bv, tol). cmp acc cv bv tol) (Num d, n) ms =
           (Num (d + sum_list (countedDevs ms)), n + length (countedDevs ms))"
  using assms
proof (induction ms arbitrary: d n)
  case Nil
  show ?case by (simp add: countedDevs_def)
next
  case (Cons m ms)
  obtain cv bv tol where m: "m = (cv, bv, tol)" by (cases m) auto
  have tol: "tol \<noteq> 0" using Cons.prems m by simp
  have rest: "list_all (\<lambda>m. snd (snd m) \<noteq> 0) ms" "\<not> list_ex (\<lambda>(cv, bv, tol). bv = PInf) ms"
    using Cons.prems by simp_all
  have fin: "bv \<noteq> PInf" using Cons.prems(2) m by simp
  show ?case
  proof (cases "\<exists>b. bv = Num b \<and> b > 0")
    case True
    then obtain b where b: "bv = Num b" "b > 0" by auto
    show ?thesis
      using Cons.IH [OF rest, of "d + metricDev cv b tol" "Suc n"] b
      by (simp add: m cmp_Num [OF tol] countedDevs_def add.assoc)
  next
    case False
    then have c: "cmp (Num d, n) cv bv tol = (Num d, n)"
      using fin by (cases bv) (simp_all add: cmp_Num [OF tol])
    have e: "countedDevs ((cv, bv, tol) # ms) = countedDevs ms"
      using False by (cases bv) (simp_all add: countedDevs_def)
    show ?thesis using Cons.IH [OF rest, of d n] by (simp add: m c e)
  qed
qed

lemma foldl_cmp_PInf:
  assumes "list_all (\<lambda>m. snd (snd m) \<noteq> 0) ms" "list_ex (\<lambda>(cv, bv, tol). bv = PInf) ms"
  shows "\<exists>n'. foldl (\<lambda>acc (cv, bv, tol). cmp acc cv bv tol) (Num d, n) ms = (NaN, n') \<and>
              n < n'"
  using assms
proof (induction ms arbitrary: d n)
  case Nil
  then show ?case by simp
next
  case (Cons m ms)
  obtain cv bv tol where m: "m = (cv, bv, tol)" by (cases m) auto
  have tol: "tol \<noteq> 0" using Cons.prems m by simp
  have rest: "list_all (\<lambda>m. snd (snd m) \<noteq> 0) ms" using Cons.prems by simp
  show ?case
  proof (cases "bv = PInf")
    case True
    obtain n' where "foldl (\<lambda>acc (cv, bv, tol). cmp acc cv bv tol) (NaN, Suc n) ms = (NaN, n')"
      "Suc n \<le> n'"
      using foldl_cmp_NaN [of "Suc n" ms] by auto
    then show ?thesis using True by (simp add: m cmp_Num [OF tol])
  next
    case False
    then have ex: "list_ex (\<lambda>(cv, bv, tol). bv = PInf) ms" using Cons.prems(2) m by simp
    have "\<exists>d1 n1. cmp (Num d, n) cv bv tol = (Num d1, n1) \<and> n \<le> n1"
      using False by (cases bv) (simp_all add: cmp_Num [OF tol])
    then obtain d1 n1 where c: "cmp (Num d, n) cv bv tol = (Num d1, n1)" "n \<le> n1"
      by auto
    obtain n' where "foldl (\<lambda>acc (cv, bv, tol). cmp acc cv bv tol) (Num d1, n1) ms = (NaN, n')"
      "n1 < n'"
      using Cons.IH [OF rest ex, of d1 n1] by auto
    then show ?thesis using c by (simp add: m)
  qed
qed

lemma part_of_fold:
  assumes "list_all (\<lambda>m. snd (snd m) \<noteq> 0) ms"
  shows "(case foldl (\<lambda>acc (cv, bv, tol). cmp acc cv bv tol) (Num 0, 0) ms of
            (d, n) \<Rightarrow> \<lparr>p_r = (if n \<noteq> 0 then jdiv d (Num (real n)) else Num 0), p_w = w\<rparr>) =
         \<lparr>p_r = channelDev ms, p_w = w\<rparr>"
proof (cases "list_ex (\<lambda>(cv, bv, tol). bv = PInf) ms")
  case True
  obtain n' where "foldl (\<lambda>acc (cv, bv, tol). cmp acc cv bv tol) (Num 0, 0) ms = (NaN, n')"
    "0 < n'"
    using foldl_cmp_PInf [OF assms True, of 0 0] by auto
  then show ?thesis using True by (simp add: channelDev_def)
next
  case False
  show ?thesis using False by (simp add: foldl_cmp [OF assms False] channelDev_def mean_def)
qed

lemma ksPart_channelDev:
  "ksPart c b =
     \<lparr>p_r = channelDev [(medDwell c, medDwell b, 0.6), (madDwell c, madDwell b, 0.7),
                         (medFlight c, medFlight b, 0.7), (medIv c, medIv b, 0.65),
                         (wpm c, wpm b, 0.6)],
      p_w = 0.5\<rparr>"
proof -
  let ?ms = "[(medDwell c, medDwell b, 0.6), (madDwell c, madDwell b, 0.7),
              (medFlight c, medFlight b, 0.7), (medIv c, medIv b, 0.65),
              (wpm c, wpm b, 0.6 :: real)]"
  have "ksPart c b =
          (case foldl (\<lambda>acc (cv, bv, tol). cmp acc cv bv tol) (Num 0, 0) ?ms of
             (d, n) \<Rightarrow> \<lparr>p_r = (if n \<noteq> 0 then jdiv d (Num (real n)) else Num 0), p_w = 0.5\<rparr>)"
    by (simp add: ksPart_def Let_def)
  also have "\<dots> = \<lparr>p_r = channelDev ?ms, p_w = 0.5\<rparr>"
    by (rule part_of_fold) simp
  finally show ?thesis .
qed

lemma clickPart_channelDev:
  "clickPart c b =
     \<lparr>p_r = channelDev [(cpm c, cpm b, 1.2), (avgDist c, avgDist b, 1.2)], p_w = 0.2\<rparr>"
proof -
  let ?ms = "[(cpm c, cpm b, 1.2), (avgDist c, avgDist b, 1.2 :: real)]"
  have "clickPart c b =
          (case foldl (\<lambda>acc (cv, bv, tol). cmp acc cv bv tol) (Num 0, 0) ?ms of
             (d, n) \<Rightarrow> \<lparr>p_r = (if n \<noteq> 0 then jdiv d (Num (real n)) else Num 0), p_w = 0.2\<rparr>)"
    by (simp add: clickPart_def Let_def cmp_def case_prod_beta)
  also have "\<dots> = \<lparr>p_r = channelDev ?ms, p_w = 0.2\<rparr>"
    by (rule part_of_fold) simp
  finally show ?thesis .
qed

lemma mousePart_mouseDev: "mousePart c b = \<lparr>p_r = mouseDev c b, p_w = 0.3\<rparr>"
  by (cases "avgVel b"; cases "curvature b"; cases "entropy b")
    (simp_all add: mousePart_def mouseDev_def absDev_def mean_def Let_def)


lemma scoreParts_closed:
  "scoreParts cur base =
     (case (fv_ks cur, fv_ks base) of
        (Some c, Some b) \<Rightarrow>
          [\<lparr>p_r = channelDev [(medDwell c, medDwell b, 0.6), (madDwell c, madDwell b, 0.7),
                               (medFlight c, medFlight b, 0.7), (medIv c, medIv b, 0.65),
                               (wpm c, wpm b, 0.6)],
            p_w = 0.5\<rparr>]
      | _ \<Rightarrow> []) @
     (case (fv_mouse cur, fv_mouse base) of
        (Some c, Some b) \<Rightarrow> [\<lparr>p_r = mouseDev c b, p_w = 0.3\<rparr>]
      | _ \<Rightarrow> []) @
     (case (fv_click cur, fv_click base) of
        (Some c, Some b) \<Rightarrow>
          [\<lparr>p_r = channelDev [(cpm c, cpm b, 1.2), (avgDist c, avgDist b, 1.2)],
            p_w = 0.2\<rparr>]
      | _ \<Rightarrow> [])"
  by (cases "fv_ks cur"; cases "fv_ks base"; cases "fv_mouse cur"; cases "fv_mouse base";
      cases "fv_click cur"; cases "fv_click base")
    (simp_all add: scoreParts_def ksPart_channelDev mousePart_mouseDev clickPart_channelDev)

lemma foldl_weights: "foldl (\<lambda>s x. s + p_w x) a parts = a + sum_list (map p_w parts)"
  by (induction parts arbitrary: a) simp_all

lemma foldl_risk_NaN: "foldl (\<lambda>s x. jadd s (jmul (p_r x) (Num (p_w x)))) NaN parts = NaN"
  by (induction parts) simp_all

lemma foldl_risk:
  assumes "list_all (\<lambda>x. isNum (p_r x) \<or> p_r x = NaN) parts"
  shows "foldl (\<lambda>s x. jadd s (jmul (p_r x) (Num (p_w x)))) (Num a) parts =
     (if list_all (\<lambda>x. isNum (p_r x)) parts
      then Num (a + sum_list (map (\<lambda>x. numOf (p_r x) * p_w x) parts)) else NaN)"
  using assms
proof (induction parts arbitrary: a)
  case Nil
  show ?case by simp
next
  case (Cons x xs)
  have rest: "list_all (\<lambda>x. isNum (p_r x) \<or> p_r x = NaN) xs" using Cons.prems by simp
  show ?case
  proof (cases "p_r x = NaN")
    case True
    then show ?thesis by (simp add: foldl_risk_NaN)
  next
    case False
    then obtain r where "p_r x = Num r" using Cons.prems by (cases "p_r x") simp_all
    then show ?thesis using Cons.IH [OF rest, of "a + r * p_w x"] by (simp add: add.assoc)
  qed
qed

lemma sum_list_map_divide:
  "sum_list (map (\<lambda>x. f x / (c::real)) xs) = sum_list (map f xs) / c"
  by (induction xs) (simp_all add: add_divide_distrib)

lemma weightedMean_eq:
  "weightedMean parts =
     (if list_all (\<lambda>x. isNum (p_r x)) parts
      then Num (sum_list (map (\<lambda>x. numOf (p_r x) * p_w x) parts) / sum_list (map p_w parts))
      else NaN)"
proof -
  have "map (\<lambda>(x, w). numOf (p_r x) * w) (zip parts (normWeights parts)) =
        map (\<lambda>x. (numOf (p_r x) * p_w x) / sum_list (map p_w parts)) parts"
    by (simp add: normWeights_def zip_map2 zip_same_conv_map)
  then show ?thesis by (simp add: weightedMean_def sum_list_map_divide)
qed

lemma riskOf_weightedMean:
  assumes "sum_list (map p_w parts) \<noteq> 0" "list_all (\<lambda>x. isNum (p_r x) \<or> p_r x = NaN) parts"
  shows "riskOf parts = weightedMean parts"
  using assms(1)
  by (simp add: riskOf_def Let_def foldl_weights foldl_risk [OF assms(2)] weightedMean_eq)

lemma scoreParts_finite:
  "list_all (\<lambda>x. isNum (p_r x) \<or> p_r x = NaN) (scoreParts cur base)"
  by (cases "fv_ks cur"; cases "fv_ks base"; cases "fv_mouse cur"; cases "fv_mouse base";
      cases "fv_click cur"; cases "fv_click base")
    (simp_all add: scoreParts_closed channelDev_def mouseDev_def)

lemma scoreParts_total_weight_pos:
  "scoreParts cur base \<noteq> [] \<Longrightarrow> sum_list (map p_w (scoreParts cur base)) > 0"
  by (cases "fv_ks cur"; cases "fv_ks base"; cases "fv_mouse cur"; cases "fv_mouse base";
      cases "fv_click cur"; cases "fv_click base")
    (simp_all add: scoreParts_closed)

lemma normWeights_sum:
  "scoreParts cur base \<noteq> [] \<Longrightarrow> sum_list (normWeights (scoreParts cur base)) = 1"
  using scoreParts_total_weight_pos [of cur base]
  by (simp add: normWeights_def sum_list_map_divide)

lemma calcTrustScore_scored:
  assumes "profile (SESSION A) = Some p" "features p = Some base"
    and "extractKS (RAW A) \<noteq> None \<or> extractMouse (RAW A) \<noteq> None"
    and "scoreParts (currentFeatures (RAW A)) base \<noteq> []"
  shows "calcTrustScore h day A =
           Some (jmax (Num 0) (jmin (Num 100)
             (jsub (Num 100)
                (jmul (riskOf (scoreParts (currentFeatures (RAW A)) base)) (Num (timeAdj h day))))))"
  using assms by (auto simp: calcTrustScore_def Let_def currentFeatures_def)

text \<open>
  Claim C2, amended. The keystroke deviation is the mean of
  \<open>min(1, |cur - base| / base / tol) * 100\<close> over the metrics whose baseline is a
  positive number among dwell median (0.6), dwell MAD (0.7), flight median (0.7),
  interval median (0.65) and WPM (0.6); the click deviation likewise over cpm and mean
  distance (both 1.2). The mouse deviation is the mean of
  \<open>min(1, |cur - base| / base) * 100\<close> for the mean velocity, counted only when its
  baseline is a positive number, and of \<open>min(1, |cur - base|) * 100\<close> for curvature and
  for entropy, both always counted. A channel deviation is \<^verbatim>\<open>NaN\<close> when the baseline of
  a relatively compared metric is \<^verbatim>\<open>Infinity\<close> or the baseline curvature or entropy is
  \<^verbatim>\<open>NaN\<close>. The parts that \<open>calcTrustScore\<close> scores are exactly these deviations of the
  current vector against the baseline, for the channels present in both, with the
  weights 0.5, 0.3, 0.2; the risk is the sum of the channel deviations times these
  weights divided by their total, and the divided weights sum to 1. The returned score
  is \<open>100 - risk * adj\<close> clamped to [0,100].
\<close>

theorem trust_channel_deviations:
  "ksPart c b =
     \<lparr>p_r = channelDev [(medDwell c, medDwell b, 0.6), (madDwell c, madDwell b, 0.7),
                         (medFlight c, medFlight b, 0.7), (medIv c, medIv b, 0.65),
                         (wpm c, wpm b, 0.6)],
      p_w = 0.5\<rparr> \<and>
   mousePart mc mb = \<lparr>p_r = mouseDev mc mb, p_w = 0.3\<rparr> \<and>
   clickPart cc cb =
     \<lparr>p_r = channelDev [(cpm cc, cpm cb, 1.2), (avgDist cc, avgDist cb, 1.2)],
      p_w = 0.2\<rparr> \<and>
   scoreParts cur base =
     (case (fv_ks cur, fv_ks base) of
        (Some c, Some b) \<Rightarrow>
          [\<lparr>p_r = channelDev [(medDwell c, medDwell b, 0.6), (madDwell c, madDwell b, 0.7),
                               (medFlight c, medFlight b, 0.7), (medIv c, medIv b, 0.65),
                               (wpm c, wpm b, 0.6)],
            p_w = 0.5\<rparr>]
      | _ \<Rightarrow> []) @
     (case (fv_mouse cur, fv_mouse base) of
        (Some c, Some b) \<Rightarrow> [\<lparr>p_r = mouseDev c b, p_w = 0.3\<rparr>]
      | _ \<Rightarrow> []) @
     (case (fv_click cur, fv_click base) of
        (Some c, Some b) \<Rightarrow>
          [\<lparr>p_r = channelDev [(cpm c, cpm b, 1.2), (avgDist c, avgDist b, 1.2)],
            p_w = 0.2\<rparr>]
      | _ \<Rightarrow> []) \<and>
   (scoreParts cur base \<noteq> [] \<longrightarrow>
      riskOf (scoreParts cur base) = weightedMean (scoreParts cur base) \<and>
      sum_list (normWeights (scoreParts cur base)) = 1) \<and>
   (profile (SESSION A) = Some p \<and> features p = Some base \<and>
    (extractKS (RAW A) \<noteq> None \<or> extractMouse (RAW A) \<noteq> None) \<and>
    scoreParts (currentFeatures (RAW A)) base \<noteq> [] \<longrightarrow>
      calcTrustScore h day A =
        Some (jmax (Num 0) (jmin (Num 100)
          (jsub (Num 100)
             (jmul (weightedMean (scoreParts (currentFeatures (RAW A)) base))
                   (Num (timeAdj h day)))))))"
proof (intro conjI impI)
  show "ksPart c b =
     \<lparr>p_r = channelDev [(medDwell c, medDwell b, 0.6), (madDwell c, madDwell b, 0.7),
                         (medFlight c, medFlight b, 0.7), (medIv c, medIv b, 0.65),
                         (wpm c, wpm b, 0.6)],
      p_w = 0.5\<rparr>"
    by (rule ksPart_channelDev)
  show "mousePart mc mb = \<lparr>p_r = mouseDev mc mb, p_w = 0.3\<rparr>"
    by (rule mousePart_mouseDev)
  show "clickPart cc cb =
     \<lparr>p_r = channelDev [(cpm cc, cpm cb, 1.2), (avgDist cc, avgDist cb, 1.2)],
      p_w = 0.2\<rparr>"
    by (rule clickPart_channelDev)
  show "scoreParts cur base =
     (case (fv_ks cur, fv_ks base) of
        (Some c, Some b) \<Rightarrow>
          [\<lparr>p_r = channelDev [(medDwell c, medDwell b, 0.6), (madDwell c, madDwell b, 0.7),
                               (medFlight c, medFlight b, 0.7), (medIv c, medIv b, 0.65),
                               (wpm c, wpm b, 0.6)],
            p_w = 0.5\<rparr>]
      | _ \<Rightarrow> []) @
     (case (fv_mouse cur, fv_mouse base) of
        (Some c, Some b) \<Rightarrow> [\<lparr>p_r = mouseDev c b, p_w = 0.3\<rparr>]
      | _ \<Rightarrow> []) @
     (case (fv_click cur, fv_click base) of
        (Some c, Some b) \<Rightarrow>
          [\<lparr>p_r = channelDev [(cpm c, cpm b, 1.2), (avgDist c, avgDist b, 1.2)],
            p_w = 0.2\<rparr>]
      | _ \<Rightarrow> [])"
    by (rule scoreParts_closed)
  show "riskOf (scoreParts cur base) = weightedMean (scoreParts cur base)"
    if "scoreParts cur base \<noteq> []"
    using scoreParts_total_weight_pos [OF that] scoreParts_finite [of cur base]
    by (intro riskOf_weightedMean) simp_all
  show "sum_list (normWeights (scoreParts cur base)) = 1" if "scoreParts cur base \<noteq> []"
    using that by (rule normWeights_sum)
next
  assume h: "profile (SESSION A) = Some p \<and> features p = Some base \<and>
    (extractKS (RAW A) \<noteq> None \<or> extractMouse (RAW A) \<noteq> None) \<and>
    scoreParts (currentFeatures (RAW A)) base \<noteq> []"
  then have "riskOf (scoreParts (currentFeatures (RAW A)) base) =
             weightedMean (scoreParts (currentFeatures (RAW A)) base)"
    using scoreParts_total_weight_pos [of "currentFeatures (RAW A)" base]
      scoreParts_finite [of "currentFeatures (RAW A)" base]
    by (intro riskOf_weightedMean) simp_all
  with h calcTrustScore_scored [of A p base h day]
  show "calcTrustScore h day A =
        Some (jmax (Num 0) (jmin (Num 100)
          (jsub (Num 100)
             (jmul (weightedMean (scoreParts (currentFeatures (RAW A)) base))
                   (Num (timeAdj h day))))))"
    by simp
qed

text \<open>Feature extraction over a buffer of fifty identical key events.\<close>

lemma sort_replicate: "sort (replicate n (x::real)) = replicate n x"
  by (simp add: sorted_sort_id)

lemma med_replicate:
  assumes "0 < n"
  shows "med (replicate n x) = x"
proof -
  have "n div 2 < n" "n div 2 - 1 < n" using assms by simp_all
  then show ?thesis using assms by (simp add: med_def sort_replicate Let_def)
qed

lemma pressIntervals_replicate: "pressIntervals (replicate n ev) = []"
proof (induction n)
  case 0
  show ?case by simp
next
  case (Suc n)
  then show ?case by (cases n) simp_all
qed

lemma extractKS_uniform:
  assumes "ksEvents R = replicate 50 (ev_dwell d)" "d \<noteq> 0" "d < 1000"
  shows "\<exists>f. extractKS R = Some f \<and> medDwell f = real_of_int d \<and> madDwell f = 0 \<and>
             medFlight f = 0 \<and> medIv f = 0 \<and> wpm f = 0"
proof -
  have q: "filter qualifying (ksEvents R) = replicate 50 (ev_dwell d)"
    using assms by (simp add: qualifying_def ev_dwell_def)
  have fl: "filter validFlight (replicate 50 (ev_dwell d)) = []"
    by (simp add: validFlight_def truthy_def ev_dwell_def)
  have w: "wordsPerMinute (replicate 50 (ev_dwell d)) = 0"
    by (simp add: wordsPerMinute_def)
  have kd: "k_dwell (ev_dwell d) = d" by (simp add: ev_dwell_def)
  show ?thesis
    by (simp add: extractKS_def q fl w kd mad_def med_replicate pressIntervals_replicate Let_def)
qed

text \<open>
  A baseline mouse vector whose three compared metrics are 0 (thirty samples, each more
  than half a second after the one before), and a current one.
\<close>

definition cex_mouse_cur :: mouse_features where
  "cex_mouse_cur = \<lparr>avgVel = 100, stdVel = 0, curvature = 0.5, entropy = 0.5,
                    jitterFreq = 0, jitterAmp = 0, mouse_n = 30\<rparr>"

definition cex_mouse_base :: "jsnum mouse_feats" where
  "cex_mouse_base = \<lparr>avgVel = Num 0, stdVel = Num 0, curvature = Num 0, entropy = Num 0,
                     jitterFreq = Num 0, jitterAmp = Num 0, mouse_n = 30\<rparr>"

text \<open>
  Two sets of buffers: fifty key events of dwell 80 and five clicks in 75 seconds (4 per
  minute), and fifty key events of dwell 100 and five clicks in 60 seconds (5 per
  minute). \<open>app_scored\<close> is the session trained over the first and now holding the
  second.
\<close>

definition click_at :: "int \<Rightarrow> click_evt" where
  "click_at t = \<lparr>c_x = 0, c_y = 0, c_t = t, c_btn = 1, c_nonce = ''n0''\<rparr>"

definition raw_base :: raw where
  "raw_base =
     (RAW_init ''n0'')\<lparr>ksEvents := replicate 50 (ev_dwell 80),
        clicks := map click_at [0, 15000, 30000, 45000, 75000]\<rparr>"

definition raw_scored :: raw where
  "raw_scored =
     (RAW_init ''n0'')\<lparr>ksEvents := replicate 50 (ev_dwell 100),
        clicks := map click_at [0, 15000, 30000, 45000, 60000]\<rparr>"

definition app_scored :: "behavior_profile app" where
  "app_scored =
     (checkTrainingProgress 5000 ''a1b2c3d4e5f6'' 5000
        (app_training Intermediate 7200000 raw_base))\<lparr>RAW := raw_scored\<rparr>"

lemma raw_base_extract:
  "\<exists>f. extractKS raw_base = Some f \<and> medDwell f = 80 \<and> madDwell f = 0 \<and>
       medFlight f = 0 \<and> medIv f = 0 \<and> wpm f = 0"
  "extractMouse raw_base = None"
  "\<exists>f. extractClick raw_base = Some f \<and> cpm f = 4 \<and> avgDist f = 0"
proof -
  show "\<exists>f. extractKS raw_base = Some f \<and> medDwell f = 80 \<and> madDwell f = 0 \<and>
       medFlight f = 0 \<and> medIv f = 0 \<and> wpm f = 0"
    using extractKS_uniform [of raw_base 80] by (simp add: raw_base_def)
  show "extractMouse raw_base = None"
    by (simp add: extractMouse_def raw_base_def RAW_init_def)
  show "\<exists>f. extractClick raw_base = Some f \<and> cpm f = 4 \<and> avgDist f = 0"
    by (simp add: extractClick_def raw_base_def click_at_def mean_def Let_def)
qed

lemma raw_scored_extract:
  "\<exists>f. extractKS raw_scored = Some f \<and> medDwell f = 100 \<and> madDwell f = 0 \<and>
       medFlight f = 0 \<and> medIv f = 0 \<and> wpm f = 0"
  "extractMouse raw_scored = None"
  "\<exists>f. extractClick raw_scored = Some f \<and> cpm f = 5 \<and> avgDist f = 0"
proof -
  show "\<exists>f. extractKS raw_scored = Some f \<and> medDwell f = 100 \<and> madDwell f = 0 \<and>
       medFlight f = 0 \<and> medIv f = 0 \<and> wpm f = 0"
    using extractKS_uniform [of raw_scored 100] by (simp add: raw_scored_def)
  show "extractMouse raw_scored = None"
    by (simp add: extractMouse_def raw_scored_def RAW_init_def)
  show "\<exists>f. extractClick raw_scored = Some f \<and> cpm f = 5 \<and> avgDist f = 0"
    by (simp add: extractClick_def raw_scored_def click_at_def mean_def Let_def)
qed

lemma app_scored_simps:
  "RAW app_scored = raw_scored"
  "\<exists>p. profile (SESSION app_scored) = Some p \<and>
       features p = Some (numFeatures (currentFeatures raw_base))"
proof -
  have p: "trainPct (SESSION (app_training Intermediate 7200000 raw_base)) \<ge> 100"
    by (simp add: trainPct_reached app_training_simps FULL_TARGET_def)
  have c: "checkTrainingProgress 5000 ''a1b2c3d4e5f6'' 5000
             (app_training Intermediate 7200000 raw_base) =
           completeTraining ''a1b2c3d4e5f6'' 5000 (app_training Intermediate 7200000 raw_base)"
    using p by (simp add: checkTrainingProgress_def app_training_simps)
  have k: "extractKS raw_base \<noteq> None" using raw_base_extract(1) by auto
  show "RAW app_scored = raw_scored" by (simp add: app_scored_def)
  show "\<exists>p. profile (SESSION app_scored) = Some p \<and>
       features p = Some (numFeatures (currentFeatures raw_base))"
    unfolding app_scored_def c using k
    by (simp add: completeTraining_def Let_def app_training_simps currentFeatures_def)
qed

text \<open>
  Scored on a Wednesday at 13h: the keystroke deviation is
  \<open>|100 - 80| / 80 / 0.6 * 100 = 125/3\<close>, the click deviation
  \<open>|5 - 4| / 4 / 1.2 * 100 = 125/6\<close>, the risk
  \<open>(125/3 * 0.5 + 125/6 * 0.2) / 0.7 = 250/7\<close> and the score \<open>450/7\<close>.
\<close>

theorem trust_channel_deviations_witness:
  "scoreParts (currentFeatures raw_scored) (numFeatures (currentFeatures raw_base)) =
     [\<lparr>p_r = Num (125 / 3), p_w = 0.5\<rparr>, \<lparr>p_r = Num (125 / 6), p_w = 0.2\<rparr>] \<and>
   riskOf (scoreParts (currentFeatures raw_scored) (numFeatures (currentFeatures raw_base))) =
     Num (250 / 7) \<and>
   calcTrustScore 13 3 app_scored = Some (Num (450 / 7))"
proof -
  let ?cur = "currentFeatures raw_scored" and ?base = "numFeatures (currentFeatures raw_base)"
  obtain kb where kb: "extractKS raw_base = Some kb" "medDwell kb = 80" "madDwell kb = 0"
    "medFlight kb = 0" "medIv kb = 0" "wpm kb = 0"
    using raw_base_extract(1) by auto
  obtain cb where cb: "extractClick raw_base = Some cb" "cpm cb = 4" "avgDist cb = 0"
    using raw_base_extract(3) by auto
  obtain kc where kc: "extractKS raw_scored = Some kc" "medDwell kc = 100" "madDwell kc = 0"
    "medFlight kc = 0" "medIv kc = 0" "wpm kc = 0"
    using raw_scored_extract(1) by auto
  obtain cc where cc: "extractClick raw_scored = Some cc" "cpm cc = 5" "avgDist cc = 0"
    using raw_scored_extract(3) by auto
  obtain p where p: "profile (SESSION app_scored) = Some p" "features p = Some ?base"
    using app_scored_simps(2) by auto
  note t = trust_channel_deviations [of kc "ksNum kb" cex_mouse_cur cex_mouse_base cc
      "clickNum cb" ?cur ?base app_scored p 13 3]
  note t4 = t [THEN conjunct2, THEN conjunct2, THEN conjunct2, THEN conjunct1]
  note t5 = t [THEN conjunct2, THEN conjunct2, THEN conjunct2, THEN conjunct2, THEN conjunct1]
  note t6 = t [THEN conjunct2, THEN conjunct2, THEN conjunct2, THEN conjunct2, THEN conjunct2]
  have parts: "scoreParts ?cur ?base =
     [\<lparr>p_r = Num (125 / 3), p_w = 0.5\<rparr>, \<lparr>p_r = Num (125 / 6), p_w = 0.2\<rparr>]"
    unfolding t4 using kb cb kc cc raw_base_extract(2) raw_scored_extract(2)
    by (simp add: currentFeatures_def numFeatures_def ksNum_def clickNum_def channelDev_def
        countedDevs_def metricDev_def mean_def)
  have wm: "weightedMean (scoreParts ?cur ?base) = Num (250 / 7)"
    unfolding parts by (simp add: weightedMean_def normWeights_def)
  have risk: "riskOf (scoreParts ?cur ?base) = Num (250 / 7)"
    using t5 parts wm by simp
  have pre: "profile (SESSION app_scored) = Some p \<and> features p = Some ?base \<and>
    (extractKS (RAW app_scored) \<noteq> None \<or> extractMouse (RAW app_scored) \<noteq> None) \<and>
    scoreParts (currentFeatures (RAW app_scored)) ?base \<noteq> []"
    using p kc parts by (simp add: app_scored_simps(1))
  have "calcTrustScore 13 3 app_scored = Some (Num (450 / 7))"
    using t6 [THEN mp, OF pre] wm by (simp add: app_scored_simps(1) timeAdj_def)
  with parts risk show ?thesis by simp
qed

text \<open>
  Claim C2 fails on the mouse channel: with every baseline metric 0 the specification
  counts no metric, so its channel deviation is 0 whatever the tolerances, while
  \<open>mousePart\<close> counts curvature and entropy and gives 50.
\<close>

theorem mouse_channel_counterexample:
  "avgVel cex_mouse_base = Num 0 \<and> curvature cex_mouse_base = Num 0 \<and>
   entropy cex_mouse_base = Num 0 \<and>
   p_r (mousePart cex_mouse_cur cex_mouse_base) = Num 50 \<and>
   claimed_channelDev
     [(avgVel cex_mouse_cur, avgVel cex_mouse_base, 0.7),
      (curvature cex_mouse_cur, curvature cex_mouse_base, 0.7),
      (entropy cex_mouse_cur, entropy cex_mouse_base, 0.7)] = 0"
  by (simp add: mousePart_def claimed_channelDev_def mean_def cex_mouse_cur_def cex_mouse_base_def)

section \<open>Range of the trust score\<close>












text \<open>
  A metric that is compared relatively to a baseline of \<^verbatim>\<open>Infinity\<close> makes the deviation
  of its channel \<^verbatim>\<open>NaN\<close>, as a baseline curvature or entropy of \<^verbatim>\<open>NaN\<close> does.
\<close>

lemma unscorable_baseline_NaN:
  "medDwell b = PInf \<or> madDwell b = PInf \<or> medFlight b = PInf \<or> medIv b = PInf \<or>
   wpm b = PInf \<Longrightarrow> p_r (ksPart c b) = NaN"
  "avgVel mb = PInf \<or> curvature mb = NaN \<or> entropy mb = NaN \<Longrightarrow>
   p_r (mousePart mc mb) = NaN"
  "cpm cb = PInf \<or> avgDist cb = PInf \<Longrightarrow> p_r (clickPart cc cb) = NaN"
  by (auto simp: ksPart_channelDev mousePart_mouseDev clickPart_channelDev channelDev_def
      mouseDev_def)


















section \<open>Trust scoring without a usable profile or without current features\<close>

text \<open>
  Claim C3 fails where the profile has no features: with a stored previous score of 80,
  \<open>calcTrustScore\<close> returns \<^verbatim>\<open>null\<close>, not 80.
\<close>

theorem calcTrustScore_null_counterexample:
  "calcTrustScore 13 3
     (app_trained\<lparr>SESSION := (SESSION app_trained)\<lparr>
        profile := Some (trained_profile\<lparr>features := None\<rparr>), trustScore := Some (Num 80)\<rparr>\<rparr>) = None \<and>
   trustScore (SESSION
     (app_trained\<lparr>SESSION := (SESSION app_trained)\<lparr>
        profile := Some (trained_profile\<lparr>features := None\<rparr>), trustScore := Some (Num 80)\<rparr>\<rparr>)) = Some (Num 80)"
  by (simp add: calcTrustScore_def)

text \<open>
  Claim C3, amended. Without a profile, or with a profile that has no features,
  \<open>calcTrustScore\<close> returns \<^verbatim>\<open>null\<close>. With a profile that has features, when neither a
  keystroke nor a mouse feature vector is extractable from the current buffers, it
  returns the stored previous score.
\<close>

theorem calcTrustScore_no_score:
  "(profile (SESSION A) = None \<or>
    (\<exists>p. profile (SESSION A) = Some p \<and> features p = None) \<longrightarrow>
      calcTrustScore h day A = None) \<and>
   ((\<exists>p base. profile (SESSION A) = Some p \<and> features p = Some base) \<and>
    extractKS (RAW A) = None \<and> extractMouse (RAW A) = None \<longrightarrow>
      calcTrustScore h day A = trustScore (SESSION A))"
  by (auto simp: calcTrustScore_def currentFeatures_def Let_def)

text \<open>
  A cold-started session, and the trained session with emptied buffers and a stored
  score of 80.
\<close>

theorem calcTrustScore_no_score_witness:
  "calcTrustScore 13 3 (app_init ''n0'' 1000) = None \<and>
   calcTrustScore 13 3
     (app_trained\<lparr>RAW := RAW_init ''n0'',
        SESSION := (SESSION app_trained)\<lparr>trustScore := Some (Num 80)\<rparr>\<rparr>) = Some (Num 80)"
proof -
  have f: "features trained_profile = Some (numFeatures (currentFeatures raw_typing))"
    by (simp add: trained_profile_def)
  have 1: "calcTrustScore 13 3 (app_init ''n0'' 1000) = None"
    using calcTrustScore_no_score [of "app_init ''n0'' 1000" 13 3]
    by (simp add: app_init_def SESSION_init_def)
  have 2: "calcTrustScore 13 3
     (app_trained\<lparr>RAW := RAW_init ''n0'',
        SESSION := (SESSION app_trained)\<lparr>trustScore := Some (Num 80)\<rparr>\<rparr>) = Some (Num 80)"
    using calcTrustScore_no_score [of "app_trained\<lparr>RAW := RAW_init ''n0'',
        SESSION := (SESSION app_trained)\<lparr>trustScore := Some (Num 80)\<rparr>\<rparr>" 13 3] f
    by (simp add: app_trained_simps RAW_init_extract)
  show ?thesis using 1 2 by simp
qed

section \<open>Reset of the profile\<close>

text \<open>
  What \<open>resetProfile\<close> establishes for every state: the history buffers, the timing
  maps, the last-release marker and the session fields take their cold-start values and
  the nonce is the fresh one, while the map of pending presses is the one from before.
\<close>

lemma resetProfile_fields:
  "ksEvents (RAW (resetProfile nc A)) = [] \<and> mouseEvts (RAW (resetProfile nc A)) = [] \<and>
   clicks (RAW (resetProfile nc A)) = [] \<and> scrolls (RAW (resetProfile nc A)) = [] \<and>
   jitterBuf (RAW (resetProfile nc A)) = [] \<and> digraphs (RAW (resetProfile nc A)) = [] \<and>
   trigraphs (RAW (resetProfile nc A)) = [] \<and> lastRelease (RAW (resetProfile nc A)) = None \<and>
   nonce (RAW (resetProfile nc A)) = nc \<and>
   profile (SESSION (resetProfile nc A)) = None \<and> isTraining (SESSION (resetProfile nc A)) \<and>
   phase (SESSION (resetProfile nc A)) = Quick \<and> activeTime (SESSION (resetProfile nc A)) = 0 \<and>
   consecutive (SESSION (resetProfile nc A)) = 0 \<and>
   keydowns (RAW (resetProfile nc A)) = keydowns (RAW A)"
  by (simp add: resetProfile_def)

text \<open>
  Claim C4 asks that after \<open>resetProfile\<close> the map of pending presses is empty as at
  cold start. With key 65 pressed at 5000 and still down, the reset keeps the pending
  press, where the cold-start map has none; the key-up at 5120 then records, in the
  emptied buffer and under the fresh nonce, an event whose press time precedes the
  reset.
\<close>

theorem resetProfile_keeps_pending_keydown:
  "keydowns (RAW app_key_down) 65 = Some 5000 \<and>
   keydowns (RAW (resetProfile ''n1'' app_key_down)) 65 = Some 5000 \<and>
   keydowns (RAW_init ''n1'') 65 = None \<and>
   ksEvents (RAW (onKeyUp 5120 5120 65 (resetProfile ''n1'' app_key_down))) =
     [\<lparr>k_kc = 65, k_dwell = 120, k_flight = None, k_ts = 5000, k_nonce = ''n1''\<rparr>]"
proof -
  let ?A = "resetProfile ''n1'' app_key_down"
  have m: "isMonitoring ?A" "enabled (SETTINGS ?A)"
    by (simp_all add: resetProfile_def app_key_down_simps)
  have r: "RAW ?A = (RAW_init ''n1'')\<lparr>keydowns := [65 \<mapsto> 5000]\<rparr>"
    by (simp add: resetProfile_def app_key_down_simps RAW_init_def)
  have "ksEvents (RAW (onKeyUp 5120 5120 65 ?A)) =
          ksEvents (resolveKeyUp 5120 65 5000 (RAW ?A))"
    using m by (simp add: RAW_onKeyUp r)
  also have "\<dots> = [keyEventOf (RAW ?A) 5120 65 5000]"
    by (simp add: ksEvents_resolve_retained r RAW_init_def)
  finally show ?thesis
    by (simp add: r app_key_down_simps RAW_init_def keyEventOf_def truthy_def)
qed

text \<open>The pending-press map after the reset is not the cold-start one.\<close>

theorem resetProfile_keeps_pending_keydown_witness:
  "keydowns (RAW (resetProfile ''n1'' app_key_down)) \<noteq> keydowns (RAW_init ''n1'')"
proof
  assume "keydowns (RAW (resetProfile ''n1'' app_key_down)) = keydowns (RAW_init ''n1'')"
  then have "keydowns (RAW (resetProfile ''n1'' app_key_down)) 65 = keydowns (RAW_init ''n1'') 65"
    by simp
  with resetProfile_keeps_pending_keydown show False by (simp add: RAW_init_def)
qed

section \<open>Import of a profile document\<close>

text \<open>
  The persisted profile schema as the specification words it:
  \<^verbatim>\<open>{uid, createdAt, features:{ks,mouse,click}, digraphs, trigraphs, size, v:"3.0"}\<close>.
  The source has no such check; the definition states the claim.
\<close>

definition hasKeys :: "string list \<Rightarrow> json \<Rightarrow> bool" where
  "hasKeys ks j = (case j of JObj fs \<Rightarrow> list_all (\<lambda>k. map_of fs k \<noteq> None) ks | _ \<Rightarrow> False)"

definition spec_profileSchemaOk :: "json \<Rightarrow> bool" where
  "spec_profileSchemaOk doc =
     (case doc of
        JObj fs \<Rightarrow>
          hasKeys [''uid'', ''createdAt'', ''features'', ''digraphs'', ''trigraphs'', ''size'', ''v''] doc \<and>
          (case map_of fs ''features'' of
             Some f \<Rightarrow> hasKeys [''ks'', ''mouse'', ''click''] f
           | None \<Rightarrow> False) \<and>
          map_of fs ''v'' = Some (JStr ''3.0'')
      | _ \<Rightarrow> False)"

text \<open>A document of that shape, and a session whose active profile it is.\<close>

definition valid_doc :: json where
  "valid_doc =
     JObj [(''uid'', JStr ''user_a1b2c3d4e5f6''), (''createdAt'', JNum 5000),
           (''features'', JObj [(''ks'', JNull), (''mouse'', JNull), (''click'', JNull)]),
           (''digraphs'', JObj []), (''trigraphs'', JObj []),
           (''size'', JObj [(''keystrokes'', JNum 50), (''mouse'', JNum 0),
                            (''clicks'', JNum 0), (''digraphs'', JNum 0)]),
           (''v'', JStr ''3.0'')]"

definition app_with_doc :: "json app" where
  "app_with_doc =
     (app_init ''n0'' 1000)\<lparr>SESSION := (SESSION_init 1000)\<lparr>profile := Some valid_doc,
        isTraining := False, phase := Complete\<rparr>\<rparr>"

text \<open>
  Claim C1 fails: the empty object \<^verbatim>\<open>{}\<close> does not have the schema, yet importing it
  returns \<^verbatim>\<open>true\<close> and replaces the active profile.
\<close>

theorem import_unvalidated_counterexample:
  "spec_profileSchemaOk valid_doc \<and> \<not> spec_profileSchemaOk (JObj []) \<and>
   profile (SESSION app_with_doc) = Some valid_doc \<and>
   fst (importProfile [''profile.json''] (Inr (JObj [])) app_with_doc) = Inr True \<and>
   profile (SESSION (snd (importProfile [''profile.json''] (Inr (JObj [])) app_with_doc))) =
     Some (JObj [])"
  by (simp add: spec_profileSchemaOk_def hasKeys_def valid_doc_def importProfile_def
      app_with_doc_def)

text \<open>
  Claim C1, amended. The import validates nothing beyond what \<^verbatim>\<open>JSON.parse\<close> accepts:
  when the dialog returns no path the handler returns \<^verbatim>\<open>false\<close> and changes nothing;
  when reading or parsing the file throws, the exception reaches the caller and the state
  is unchanged; for every parsed document, of whatever shape, the handler returns
  \<^verbatim>\<open>true\<close>, makes the document the active and the stored profile and turns training
  off.
\<close>

theorem import_replaces_without_validation:
  "(filePaths = [] \<longrightarrow> importProfile filePaths parsed A = (Inr False, A)) \<and>
   (filePaths \<noteq> [] \<and> parsed = Inl err \<longrightarrow> importProfile filePaths parsed A = (Inl err, A)) \<and>
   (filePaths \<noteq> [] \<and> parsed = Inr doc \<longrightarrow>
      fst (importProfile filePaths parsed A) = Inr True \<and>
      profile (SESSION (snd (importProfile filePaths parsed A))) = Some doc \<and>
      \<not> isTraining (SESSION (snd (importProfile filePaths parsed A))) \<and>
      st_profile (store (snd (importProfile filePaths parsed A))) = Some doc)"
  by (simp add: importProfile_def)

text \<open>A cancelled dialog, a file that does not parse, and the document \<^verbatim>\<open>[]\<close>.\<close>

theorem import_replaces_without_validation_witness:
  "importProfile [] (Inr valid_doc) app_with_doc = (Inr False, app_with_doc) \<and>
   importProfile [''profile.json''] (Inl ''SyntaxError'') app_with_doc =
     (Inl ''SyntaxError'', app_with_doc) \<and>
   fst (importProfile [''profile.json''] (Inr (JArr [])) app_with_doc) = Inr True \<and>
   profile (SESSION (snd (importProfile [''profile.json''] (Inr (JArr [])) app_with_doc))) =
     Some (JArr [])"
  using import_replaces_without_validation [of "[]" "Inr valid_doc" app_with_doc]
    import_replaces_without_validation
      [of "[''profile.json'']" "Inl ''SyntaxError''" app_with_doc "''SyntaxError''"]
    import_replaces_without_validation
      [of "[''profile.json'']" "Inr (JArr [])" app_with_doc _ "JArr []"]
  by simp

section \<open>Points of the bot scorer\<close>

lemma fst_award_if:
  "fst (if c then award pts why acc else acc) = fst acc + (if c then pts else 0)"
  by (simp add: award_def case_prod_beta)

lemma if_nested_same: "(if A then (if B then X else Y) else Y) = (if A \<and> B then X else Y)"
  by simp

text \<open>
  The points of the three groups of rules as closed expressions: the mouse rules, the
  keystroke rules (given the number of distinct digraphs) and the micro-correction rule
  over the mouse buffer.
\<close>

definition mousePoints :: "mouse_features option \<Rightarrow> int" where
  "mousePoints mouse =
     (case mouse of
        None \<Rightarrow> 0
      | Some m \<Rightarrow>
          (if entropy m < 0.02 then 40 else 0) +
          (if \<not> (3 \<le> jitterFreq m \<and> jitterFreq m \<le> 12) \<and> jitterFreq m > 0 then 30 else 0) +
          (if curvature m < 0.01 then 25 else 0))"

definition keystrokePoints :: "ks_features option \<Rightarrow> nat \<Rightarrow> int" where
  "keystrokePoints ks ndigraphs =
     (case ks of
        None \<Rightarrow> 0
      | Some k \<Rightarrow>
          (if medIv k < 30 then 50 else 0) +
          (if (if medIv k > 0 then iqrIv k / medIv k else 0) < 0.15 \<and> ks_n k > 30 then 25 else 0) +
          (if digVar k < 3 \<and> ndigraphs > 10 then 20 else 0))"

definition microCorrectionPoints :: "mouse_evt list \<Rightarrow> int" where
  "microCorrectionPoints ms =
     (if length ms \<ge> 20 \<and>
         real (directionChanges (lastN 50 ms)) / real (length (lastN 50 ms) - 2) < 0.15
      then 30 else 0)"

text \<open>
  Claim C6, amended. The score of \<open>detectBot\<close> is the sum of: 40 when the mouse entropy
  is below 0.02; 30 when the jitter frequency is positive and outside [3,12]; 25 when the
  curvature is below 0.01; 50 when the median interval is below 30; 25 when IQR/median of
  the intervals (taken as 0 when the median is not positive) is below 0.15 and the sample
  count is more than 30; 20 when the digraph variance is below 3 and more than 10
  distinct digraphs are recorded; 30 when at least 20 mouse samples are buffered and,
  over the last 50, the fraction of direction changes in the band is below 0.15.
  \<open>isBot\<close> holds exactly when the score is at least 85 and the confidence is the score
  capped at 100.
\<close>

theorem botScore_points:
  "fst (botScore ks mouse R) =
     mousePoints mouse + keystrokePoints ks (length (digraphs R)) +
     microCorrectionPoints (mouseEvts R) \<and>
   isBot (detectBot ks mouse R) = (fst (botScore ks mouse R) \<ge> 85) \<and>
   confidence (detectBot ks mouse R) = min 100 (fst (botScore ks mouse R))"
proof -
  have 1: "fst (botScore ks mouse R) =
     mousePoints mouse + keystrokePoints ks (length (digraphs R)) +
     microCorrectionPoints (mouseEvts R)"
    by (cases mouse; cases ks)
      (simp_all add: botScore_def mousePoints_def keystrokePoints_def
        microCorrectionPoints_def Let_def fst_award_if if_nested_same
        split del: if_split cong: if_cong)
  have 2: "isBot (detectBot ks mouse R) = (fst (botScore ks mouse R) \<ge> 85)"
    "confidence (detectBot ks mouse R) = min 100 (fst (botScore ks mouse R))"
    by (simp_all add: detectBot_def case_prod_beta)
  show ?thesis using 1 2 by simp
qed

text \<open>
  The keystroke rules as the specification words them: "with \<open>\<ge>\<close> 30 samples" and
  "while \<open>\<ge>\<close> 10 distinct digraphs observed".
\<close>

definition claimed_keystrokePoints :: "ks_features option \<Rightarrow> nat \<Rightarrow> int" where
  "claimed_keystrokePoints ks ndigraphs =
     (case ks of
        None \<Rightarrow> 0
      | Some k \<Rightarrow>
          (if medIv k < 30 then 50 else 0) +
          (if iqrIv k / medIv k < 0.15 \<and> ks_n k \<ge> 30 then 25 else 0) +
          (if digVar k < 3 \<and> ndigraphs \<ge> 10 then 20 else 0))"

text \<open>
  A keystroke vector that triggers no speed or consistency rule and has digraph variance
  0, and raw data with exactly ten distinct digraphs.
\<close>

definition ks_slow :: ks_features where
  "ks_slow =
     \<lparr>medDwell = 100, madDwell = 10, p25Dwell = 90, p75Dwell = 110, iqrDwell = 20,
      avgDwell = 100, stdDwell = 10, medFlight = 80, madFlight = 10,
      medIv = 200, madIv = 50, iqrIv = 100, wpm = 40, digVar = 0, ks_n = 50\<rparr>"

definition raw_ten_digraphs :: raw where
  "raw_ten_digraphs =
     (RAW_init ''n0'')\<lparr>digraphs :=
        [([65, 66], [200]), ([66, 67], [200]), ([67, 68], [200]), ([68, 69], [200]),
         ([69, 70], [200]), ([70, 71], [200]), ([71, 72], [200]), ([72, 73], [200]),
         ([73, 74], [200]), ([74, 75], [200])]\<rparr>"

text \<open>
  Claim C6 fails at exactly ten distinct digraphs: the rule as worded awards 20 points,
  \<open>detectBot\<close> awards none.
\<close>

theorem bot_ten_digraphs_counterexample:
  "digVar ks_slow < 3 \<and> length (digraphs raw_ten_digraphs) = 10 \<and>
   distinct (map fst (digraphs raw_ten_digraphs)) \<and>
   claimed_keystrokePoints (Some ks_slow) (length (digraphs raw_ten_digraphs)) = 20 \<and>
   botScore (Some ks_slow) None raw_ten_digraphs = (0, []) \<and>
   confidence (detectBot (Some ks_slow) None raw_ten_digraphs) = 0"
  by (simp add: ks_slow_def raw_ten_digraphs_def RAW_init_def claimed_keystrokePoints_def
      botScore_def detectBot_def)

text \<open>
  A keystroke vector with interval IQR/median 0.1 and the mouse vector of a perfectly
  straight path.
\<close>

definition ks_steady :: ks_features where
  "ks_steady = ks_slow\<lparr>iqrIv := 20\<rparr>"

definition mouse_straight :: mouse_features where
  "mouse_straight =
     \<lparr>avgVel = 500, stdVel = 0, curvature = 0, entropy = 0, jitterFreq = 0, jitterAmp = 0,
      mouse_n = 50\<rparr>"

text \<open>
  Entropy and curvature alone give 65 and no flag; with the consistent keystrokes the
  score is 90 and the flag is set.
\<close>

theorem botScore_points_witness:
  "fst (botScore (Some ks_steady) (Some mouse_straight) (RAW_init ''n0'')) = 90 \<and>
   isBot (detectBot (Some ks_steady) (Some mouse_straight) (RAW_init ''n0'')) \<and>
   confidence (detectBot (Some ks_steady) (Some mouse_straight) (RAW_init ''n0'')) = 90 \<and>
   fst (botScore None (Some mouse_straight) (RAW_init ''n0'')) = 65 \<and>
   \<not> isBot (detectBot None (Some mouse_straight) (RAW_init ''n0''))"
  using botScore_points [of "Some ks_steady" "Some mouse_straight" "RAW_init ''n0''"]
    botScore_points [of None "Some mouse_straight" "RAW_init ''n0''"]
  by (simp add: mousePoints_def keystrokePoints_def microCorrectionPoints_def
      ks_steady_def ks_slow_def mouse_straight_def RAW_init_def)

end
